theory Spec2Isabelle
  imports Complex_Main "HOL-Library.AList" "HOL-Library.List_Lexorder" "HOL-Library.Char_ord"
begin

section \<open>Python values and exceptions\<close>

text \<open>
  Exceptions of \<^verbatim>\<open>python/paddle/base/compiler.py\<close> are values. The first constructors are
  the Python exception classes the file raises itself, with the message text; \<open>KeyError\<close>,
  \<open>IndexError\<close> and \<open>AttributeError\<close> are what the interpreter raises on a failed lookup;
  \<open>ForeignError\<close> is any exception raised inside a collaborator that is not part of the
  file (the C++ core, the pass library, the dy2static tracer).
\<close>

datatype py_error =
    TypeError string
  | ValueError string
  | RuntimeError string
  | AssertionError string
  | KeyError string
  | IndexError
  | AttributeError string
  | ForeignError string

text \<open>
  Option values of \<^verbatim>\<open>_IpuStrategyOptions\<close>: booleans, integers, floats, strings and the
  nested dictionary of \<^verbatim>\<open>custom_op\<close>. A Python dict is an association list in insertion
  order. Floats are only stored and handed on, never computed with.
\<close>

datatype opt_value =
    VNone
  | VBool bool
  | VInt int
  | VFloat real
  | VStr string
  | VDict "(string \<times> opt_value) list"

type_synonym options = "(string \<times> opt_value) list"

text \<open>Python truthiness, as used by \<^verbatim>\<open>not enable_manual_shard\<close> and \<^verbatim>\<open>if ....is_training\<close>.\<close>

fun truthy :: "opt_value \<Rightarrow> bool" where
  "truthy VNone = False"
| "truthy (VBool b) = b"
| "truthy (VInt i) = (i \<noteq> 0)"
| "truthy (VFloat x) = (x \<noteq> 0)"
| "truthy (VStr s) = (s \<noteq> [])"
| "truthy (VDict d) = (d \<noteq> [])"

definition dict_keys :: "('k \<times> 'v) list \<Rightarrow> 'k set" where
  "dict_keys d = set (map fst d)"

section \<open>IpuStrategy\<close>

text \<open>
  The attributes of an \<^verbatim>\<open>IpuStrategy\<close> object. \<open>ipu_strategy\<close> is \<^verbatim>\<open>self._ipu_strategy\<close>, the
  \<^verbatim>\<open>core.IpuStrategy\<close> object of the C++ binding; its type is a parameter, and its two
  methods are passed to every function that calls them:
  \<^item> \<open>core_set :: options \<Rightarrow> 'c \<Rightarrow> py_error option \<times> 'c\<close> is
    \<^verbatim>\<open>self._ipu_strategy.set_options(options)\<close>: the exception it raised, if any, and the
    core object afterwards;
  \<^item> \<open>core_get :: string \<Rightarrow> 'c \<Rightarrow> py_error + options\<close> is
    \<^verbatim>\<open>self._ipu_strategy.get_option(option)\<close>, which returns a dict.
\<close>

record 'c IpuStrategy =
  ipu_strategy :: 'c
  has_custom_ops :: bool
  custom_op_names :: "string list"
  need_compile :: bool

definition recompile_white_list :: "string set" where
  "recompile_white_list = {''lr''}"

text \<open>
  \<^verbatim>\<open>IpuStrategy.set_options\<close> (lines 920-948). A method that returns \<^verbatim>\<open>None\<close> yields the
  exception it raised, if any, and the object afterwards.
\<close>

definition set_options ::
  "(options \<Rightarrow> 'c \<Rightarrow> py_error option \<times> 'c) \<Rightarrow> options \<Rightarrow> 'c IpuStrategy
     \<Rightarrow> py_error option \<times> 'c IpuStrategy" where
  "set_options core_set opts self =
     (case core_set opts (ipu_strategy self) of
        (Some e, c) \<Rightarrow> (Some e, self\<lparr>ipu_strategy := c\<rparr>)
      | (None, c) \<Rightarrow>
          (if dict_keys opts - recompile_white_list \<noteq> {}
           then (None, self\<lparr>ipu_strategy := c, need_compile := True\<rparr>)
           else (None, self\<lparr>ipu_strategy := c\<rparr>)))"

text \<open>\<^verbatim>\<open>IpuStrategy.get_option\<close> (lines 950-973): \<^verbatim>\<open>self._ipu_strategy.get_option(option)['value']\<close>.\<close>

definition get_option ::
  "(string \<Rightarrow> 'c \<Rightarrow> py_error + options) \<Rightarrow> string \<Rightarrow> 'c IpuStrategy \<Rightarrow> py_error + opt_value" where
  "get_option core_get option self =
     (case core_get option (ipu_strategy self) of
        Inl e \<Rightarrow> Inl e
      | Inr d \<Rightarrow> (case map_of d ''value'' of None \<Rightarrow> Inl (KeyError ''value'') | Some v \<Rightarrow> Inr v))"

text \<open>\<^verbatim>\<open>IpuStrategy.set_graph_config\<close> (lines 743-790).\<close>

definition graph_config_options :: "int \<Rightarrow> bool \<Rightarrow> int \<Rightarrow> bool \<Rightarrow> options" where
  "graph_config_options num_ipus is_training micro_batch_size enable_manual_shard =
     [(''num_ipus'', VInt num_ipus),
      (''is_training'', VBool is_training),
      (''micro_batch_size'', VInt micro_batch_size),
      (''enable_manual_shard'', VBool enable_manual_shard)]"

definition set_graph_config ::
  "(options \<Rightarrow> 'c \<Rightarrow> py_error option \<times> 'c) \<Rightarrow> int \<Rightarrow> bool \<Rightarrow> int \<Rightarrow> bool \<Rightarrow> 'c IpuStrategy
     \<Rightarrow> py_error option \<times> 'c IpuStrategy" where
  "set_graph_config core_set num_ipus is_training micro_batch_size enable_manual_shard self =
     (if num_ipus = 1 \<and> enable_manual_shard
      then (Some (RuntimeError
                    ''Only if num_ipus > 1, enable_manual_shard is able to be set True.''), self)
      else set_options core_set
             (graph_config_options num_ipus is_training micro_batch_size enable_manual_shard) self)"

text \<open>\<^verbatim>\<open>IpuStrategy.set_pipelining_config\<close> (lines 792-842).\<close>

definition pipelining_config_options :: "bool \<Rightarrow> int \<Rightarrow> bool \<Rightarrow> int \<Rightarrow> options" where
  "pipelining_config_options enable_pipelining batches_per_step enable_gradient_accumulation
       accumulation_factor =
     [(''enable_pipelining'', VBool enable_pipelining),
      (''batches_per_step'', VInt batches_per_step),
      (''enable_gradient_accumulation'', VBool enable_gradient_accumulation),
      (''accumulation_factor'', VInt accumulation_factor)]"

definition set_pipelining_config ::
  "(string \<Rightarrow> 'c \<Rightarrow> py_error + options) \<Rightarrow> (options \<Rightarrow> 'c \<Rightarrow> py_error option \<times> 'c)
     \<Rightarrow> bool \<Rightarrow> int \<Rightarrow> bool \<Rightarrow> int \<Rightarrow> 'c IpuStrategy \<Rightarrow> py_error option \<times> 'c IpuStrategy" where
  "set_pipelining_config core_get core_set enable_pipelining batches_per_step
       enable_gradient_accumulation accumulation_factor self =
     (case get_option core_get ''enable_manual_shard'' self of
        Inl e \<Rightarrow> (Some e, self)
      | Inr enable_manual_shard \<Rightarrow>
          (if \<not> truthy enable_manual_shard \<and> enable_pipelining
           then (Some (RuntimeError
                  ''Only if enable_manual_shard=True, enable_pipelining is able to be set True.''),
                 self)
           else set_options core_set
                  (pipelining_config_options enable_pipelining batches_per_step
                     enable_gradient_accumulation accumulation_factor) self))"

subsection \<open>A concrete option store\<close>

text \<open>
  Modelled from the spec: the option store behind \<^verbatim>\<open>core.IpuStrategy\<close> (C++, not part of the
  Python file). The spec says that setting options merges the entries into the live
  configuration, that getting an option fails if it is unknown, and that a get or set on
  an unrecognised key is an \<^verbatim>\<open>UnknownOption\<close> error. \<open>schema\<close> lists the recognised
  names. The store is used to run the functions above on concrete inputs; the theorems
  about them hold for every core.
\<close>

definition store_set_options :: "string list \<Rightarrow> options \<Rightarrow> options \<Rightarrow> py_error option \<times> options" where
  "store_set_options schema opts store =
     (case filter (\<lambda>k. k \<notin> set schema) (map fst opts) of
        [] \<Rightarrow> (None, fold (\<lambda>(k, v). AList.update k v) opts store)
      | k # _ \<Rightarrow> (Some (ForeignError (''UnknownOption: '' @ k)), store))"

definition store_get_option :: "string \<Rightarrow> options \<Rightarrow> py_error + options" where
  "store_get_option option store =
     (case map_of store option of
        None \<Rightarrow> Inl (ForeignError (''UnknownOption: '' @ option))
      | Some v \<Rightarrow> Inr [(''name'', VStr option), (''value'', v)])"

definition graph_schema :: "string list" where
  "graph_schema =
     [''num_ipus'', ''is_training'', ''micro_batch_size'', ''enable_manual_shard'',
      ''enable_pipelining'', ''batches_per_step'', ''enable_gradient_accumulation'',
      ''accumulation_factor'', ''enable_fp16'', ''lr'']"

text \<open>A strategy as \<^verbatim>\<open>IpuStrategy.__init__\<close> leaves it, with the store's options \<open>store\<close>.\<close>

definition new_strategy :: "options \<Rightarrow> options IpuStrategy" where
  "new_strategy store =
     \<lparr>ipu_strategy = store, has_custom_ops = False, custom_op_names = [], need_compile = True\<rparr>"

section \<open>The patched program cache (IpuDynamicPatcher.patch_program_cache)\<close>

text \<open>
  \<^verbatim>\<open>patch_getter\<close> (lines 518-554) replaces \<^verbatim>\<open>ProgramCache.__getitem__\<close>. Its collaborators are
  not part of the file and are parameters:
  \<^item> \<open>py_hash\<close> is \<^verbatim>\<open>hash(item)\<close> of a \<^verbatim>\<open>CacheKey\<close>, \<open>key_class_instance\<close> the attribute \<^verbatim>\<open>class_instance\<close>;
  \<^item> \<open>build_once\<close> is \<^verbatim>\<open>self._build_once(item)\<close> (its first component);
  \<^item> \<open>convert_concrete_program\<close> is \<^verbatim>\<open>IpuDynamicPatcher.convert_concrete_program\<close>, whose
    body runs the tracer, the optimizer and \<^verbatim>\<open>IpuCompiledProgram.compile\<close> on the strategy
    object; it returns its result and the strategy as it leaves it;
  \<^item> \<open>partial_program_from\<close> is the function of that name.
\<close>

record ('k, 'ci, 'cp, 'pp, 'c) tracer =
  py_hash :: "'k \<Rightarrow> int"
  key_class_instance :: "'k \<Rightarrow> 'ci option"
  build_once :: "'k \<Rightarrow> py_error + 'cp"
  convert_concrete_program ::
    "'c IpuStrategy \<Rightarrow> 'cp \<Rightarrow> 'ci option \<Rightarrow> (py_error + 'cp) \<times> 'c IpuStrategy"
  partial_program_from :: "'cp \<Rightarrow> bool \<Rightarrow> py_error + 'pp"

text \<open>The argument of \<^verbatim>\<open>__getitem__\<close>: a \<^verbatim>\<open>CacheKey\<close>, or an object of another type (its name).\<close>

datatype 'k cache_item = CacheKey 'k | NotCacheKey string

text \<open>
  The three calls of \<^verbatim>\<open>logging_utils.warn\<close>: lines 527, 531 and 549 (the last with the
  current count and the ceiling).
\<close>

datatype warning =
    StrategyChanged
  | MultipleCaches
  | TooManyTraced nat nat

text \<open>
  What a lookup reads and writes: the dict \<^verbatim>\<open>self._caches\<close> (in insertion order) and
  \<^verbatim>\<open>self._recent_key\<close> of the \<^verbatim>\<open>ProgramCache\<close>, the strategy object the patch closes over,
  and the warnings logged so far. \<open>build_calls\<close> counts how often the build of lines
  535-545 has been started; the source has no such counter, it is there to state how
  often the build runs.
\<close>

record ('c, 'e) cache_world =
  caches :: "(int \<times> 'e) list"
  recent_key :: "int option"
  strategy :: "'c IpuStrategy"
  warnings :: "warning list"
  build_calls :: nat

definition warn :: "warning \<Rightarrow> ('c, 'e) cache_world \<Rightarrow> ('c, 'e) cache_world" where
  "warn msg w = w\<lparr>warnings := warnings w @ [msg]\<rparr>"

text \<open>\<^verbatim>\<open>d[k]\<close> on a dict.\<close>

definition getitem :: "(int \<times> 'e) list \<Rightarrow> int \<Rightarrow> py_error + 'e" where
  "getitem d k = (case map_of d k of None \<Rightarrow> Inl (KeyError ''item_id'') | Some v \<Rightarrow> Inr v)"

text \<open>
  The build of lines 535-545: \<^verbatim>\<open>_build_once\<close>, \<^verbatim>\<open>convert_concrete_program\<close>,
  \<^verbatim>\<open>partial_program_from\<close>; the entry is the pair of line 540.
\<close>

definition build_entry ::
  "('k, 'ci, 'cp, 'pp, 'c) tracer \<Rightarrow> 'c IpuStrategy \<Rightarrow> 'k
     \<Rightarrow> (py_error + 'cp \<times> 'pp) \<times> 'c IpuStrategy" where
  "build_entry tr strat k =
     (case build_once tr k of
        Inl e \<Rightarrow> (Inl e, strat)
      | Inr concrete_program \<Rightarrow>
          (case convert_concrete_program tr strat concrete_program (key_class_instance tr k) of
             (Inl e, strat') \<Rightarrow> (Inl e, strat')
           | (Inr concrete_program', strat') \<Rightarrow>
               (case partial_program_from tr concrete_program' (key_class_instance tr k \<noteq> None) of
                  Inl e \<Rightarrow> (Inl e, strat')
                | Inr pp \<Rightarrow> (Inr (concrete_program', pp), strat'))))"

definition patch_getter ::
  "nat \<Rightarrow> ('k, 'ci, 'cp, 'pp, 'c) tracer \<Rightarrow> 'k cache_item \<Rightarrow> ('c, 'cp \<times> 'pp) cache_world
     \<Rightarrow> (py_error + 'cp \<times> 'pp) \<times> ('c, 'cp \<times> 'pp) cache_world" where
  "patch_getter MAX_TRACED_PROGRAM_COUNT tr item w =
     (case item of
        NotCacheKey tyname \<Rightarrow>
          (Inl (ValueError (''type(item) should be CacheKey, but received '' @ tyname)), w)
      | CacheKey k \<Rightarrow>
          (let item_id = py_hash tr k;
               w1 = w\<lparr>recent_key := Some item_id\<rparr>
           in if item_id \<notin> dict_keys (caches w1) \<or> need_compile (strategy w1) then
                (let w2 = (if item_id \<in> dict_keys (caches w1) then warn StrategyChanged w1 else w1);
                     w3 = (if caches w2 \<noteq> [] \<and> \<not> need_compile (strategy w2)
                           then warn MultipleCaches w2 else w2);
                     w4 = w3\<lparr>build_calls := Suc (build_calls w3)\<rparr>
                 in case build_entry tr (strategy w4) k of
                      (Inl e, strat) \<Rightarrow> (Inl e, w4\<lparr>strategy := strat\<rparr>)
                    | (Inr entry, strat) \<Rightarrow>
                        (let w5 = w4\<lparr>strategy := strat,
                                      caches := AList.update item_id entry (caches w4)\<rparr>;
                             current_tracing_count = length (caches w5);
                             w6 = (if current_tracing_count > MAX_TRACED_PROGRAM_COUNT
                                   then warn (TooManyTraced current_tracing_count
                                                MAX_TRACED_PROGRAM_COUNT) w5
                                   else w5)
                         in (getitem (caches w6) item_id, w6)))
              else (getitem (caches w1) item_id, w1)))"

text \<open>The warnings of lines 526-534, before the build.\<close>

definition early_warnings :: "int \<Rightarrow> ('c, 'e) cache_world \<Rightarrow> warning list" where
  "early_warnings item_id w =
     (if map_of (caches w) item_id \<noteq> None then [StrategyChanged] else []) @
     (if caches w \<noteq> [] \<and> \<not> need_compile (strategy w) then [MultipleCaches] else [])"

text \<open>
  A sequence of lookups on one cache. A lookup that raised leaves the cache as it was
  when it raised, and the next lookup starts from there.
\<close>

fun lookups ::
  "nat \<Rightarrow> ('k, 'ci, 'cp, 'pp, 'c) tracer \<Rightarrow> 'k cache_item list \<Rightarrow> ('c, 'cp \<times> 'pp) cache_world
     \<Rightarrow> ('c, 'cp \<times> 'pp) cache_world" where
  "lookups MAX_TRACED_PROGRAM_COUNT tr [] w = w"
| "lookups MAX_TRACED_PROGRAM_COUNT tr (item # items) w =
     lookups MAX_TRACED_PROGRAM_COUNT tr items (snd (patch_getter MAX_TRACED_PROGRAM_COUNT tr item w))"

text \<open>
  A tracer to run lookups on: keys are numbers hashed to themselves, the build of key \<open>k\<close>
  fails for \<open>k = 0\<close> and otherwise yields \<open>(k, True)\<close>, and the conversion clears
  \<open>need_compile\<close>, as \<^verbatim>\<open>IpuCompiledProgram.compile\<close> does on success.
\<close>

definition demo_tracer :: "(nat, unit, nat, bool, options) tracer" where
  "demo_tracer =
     \<lparr>py_hash = int,
      key_class_instance = (\<lambda>k. None),
      build_once = (\<lambda>k. if k = 0 then Inl (ForeignError ''trace failed'') else Inr k),
      convert_concrete_program = (\<lambda>strat cp ci. (Inr cp, strat\<lparr>need_compile := False\<rparr>)),
      partial_program_from = (\<lambda>cp b. Inr (\<not> b))\<rparr>"

definition demo_world :: "(int \<times> nat \<times> bool) list \<Rightarrow> bool \<Rightarrow> (options, nat \<times> bool) cache_world" where
  "demo_world entries flag =
     \<lparr>caches = entries, recent_key = None, strategy = (new_strategy [])\<lparr>need_compile := flag\<rparr>,
      warnings = [], build_calls = 0\<rparr>"

section \<open>Programs and graphs\<close>

text \<open>
  What the file reads and writes of the objects of \<^verbatim>\<open>framework\<close> and \<^verbatim>\<open>core\<close>. An operator
  has its \<^verbatim>\<open>type\<close> and the \<^verbatim>\<open>is_target\<close> flag of its desc; a variable has the attributes
  \<^verbatim>\<open>_is_distributed\<close> and \<^verbatim>\<open>is_distributed\<close> (\<open>None\<close> when the object has no such
  attribute, which is what \<^verbatim>\<open>getattr(var, ..., False)\<close> asks) and the \<^verbatim>\<open>need_check_feed\<close> flag
  of its desc. A program is its global block (\<^verbatim>\<open>ops\<close>, and \<^verbatim>\<open>vars\<close> as a dict in insertion
  order) with the attributes the file uses; \<open>lr_scheduler = None\<close> says that the program
  has no attribute \<^verbatim>\<open>lr_scheduler\<close>. An attribute \<^verbatim>\<open>_x\<close> that would clash with another
  name is written \<open>priv_x\<close>.
\<close>

record 'a Operator =
  type :: string
  is_target :: bool
  payload :: 'a

record Variable =
  priv_is_distributed :: "bool option"
  is_distributed :: "bool option"
  need_check_feed :: bool

record LRScheduler =
  var_name :: string
  lr_var :: "Variable option"

record 'a Program =
  ops :: "'a Operator list"
  vars :: "(string \<times> Variable) list"
  lr_scheduler :: "LRScheduler option"
  priv_trainers_endpoints :: "string list"
  priv_nccl_comm_num :: int
  priv_use_hierarchical_allreduce :: bool
  priv_hierarchical_allreduce_inter_nranks :: int
  priv_enable_dgc :: bool

text \<open>
  A node of a \<^verbatim>\<open>core.Graph\<close>: \<^verbatim>\<open>is_var()\<close>, \<^verbatim>\<open>var()\<close> (a VarDesc or \<^verbatim>\<open>None\<close>) and \<^verbatim>\<open>name()\<close>.
  Of \<^verbatim>\<open>core.VarDesc.VarType\<close> the file names only \<^verbatim>\<open>RAW\<close>.
\<close>

datatype VarType = RAW | NOT_RAW nat

record VarDesc =
  persistable :: bool
  var_type :: VarType

record Node =
  is_var :: bool
  var :: "VarDesc option"
  name :: string

subsection \<open>Removing operators by index\<close>

text \<open>
  Modelled from the spec: \<^verbatim>\<open>Block._remove_op(index)\<close> of \<^verbatim>\<open>framework.py\<close> (not part of the
  file) removes the operator at position \<open>index\<close> of the block and nothing else, as the
  spec's \<^verbatim>\<open>removeNode\<close> does for one node; an index out of range is an \<^verbatim>\<open>IndexError\<close>.
\<close>

definition remove_op :: "nat \<Rightarrow> 'b list \<Rightarrow> py_error + 'b list" where
  "remove_op index xs =
     (if index < length xs then Inr (take index xs @ drop (Suc index) xs) else Inl IndexError)"

text \<open>\<^verbatim>\<open>for index in idx: block._remove_op(index)\<close>.\<close>

fun remove_ops :: "nat list \<Rightarrow> 'b list \<Rightarrow> py_error + 'b list" where
  "remove_ops [] xs = Inr xs"
| "remove_ops (index # rest) xs =
     (case remove_op index xs of Inl e \<Rightarrow> Inl e | Inr xs' \<Rightarrow> remove_ops rest xs')"

text \<open>
  \<^verbatim>\<open>for i, op in enumerate(ops): if P(op): idx.append(i)\<close>: the positions of the operators
  that satisfy \<open>P\<close>, ascending.
\<close>

definition indices_where :: "('b \<Rightarrow> bool) \<Rightarrow> 'b list \<Rightarrow> nat list" where
  "indices_where P xs = map fst (filter (\<lambda>(i, x). P x) (enumerate 0 xs))"

text \<open>\<^verbatim>\<open>_prune_feed_ops\<close> (lines 91-98): the indices are removed last to first (\<^verbatim>\<open>pop_idx[::-1]\<close>).\<close>

definition prune_feed_ops :: "'a Program \<Rightarrow> py_error + 'a Program" where
  "prune_feed_ops program =
     (let pop_idx = indices_where (\<lambda>op. type op = ''feed'') (ops program)
      in case remove_ops (rev pop_idx) (ops program) of
           Inl e \<Rightarrow> Inl e
         | Inr ops' \<Rightarrow> Inr (program\<lparr>ops := ops'\<rparr>))"

text \<open>\<^verbatim>\<open>_should_broadcast_or_not_exists\<close> (lines 112-120).\<close>

definition getattr_False :: "bool option \<Rightarrow> bool" where
  "getattr_False a = (case a of None \<Rightarrow> False | Some b \<Rightarrow> b)"

definition should_broadcast_or_not_exists :: "'a Program \<Rightarrow> string \<Rightarrow> bool" where
  "should_broadcast_or_not_exists program vname =
     (case map_of (vars program) vname of
        None \<Rightarrow> True
      | Some v \<Rightarrow> \<not> (getattr_False (priv_is_distributed v) \<or> getattr_False (is_distributed v)))"

section \<open>CompiledProgram\<close>

datatype DeviceType = CPU | CUDA | XPU

datatype ReduceStrategy = AllReduce | Reduce | NoReduce

text \<open>The attributes of \<^verbatim>\<open>BuildStrategy\<close> that the file reads or writes.\<close>

record BuildStrategy =
  num_trainers :: int
  trainers_endpoints :: "string list"
  nccl_comm_num :: int
  use_hierarchical_allreduce :: bool
  hierarchical_allreduce_inter_nranks :: int
  reduce_strategy :: ReduceStrategy
  fuse_all_reduce_ops :: bool

text \<open>
  The collaborators of \<^verbatim>\<open>CompiledProgram\<close>, none of them part of the file: the graph
  constructor \<^verbatim>\<open>core.Graph(program.desc)\<close> and \<^verbatim>\<open>graph.nodes()\<close>; \<^verbatim>\<open>place._equals\<close> and the
  two \<^verbatim>\<open>isinstance\<close> tests on a place; \<^verbatim>\<open>_place_obj\<close>'s \<^verbatim>\<open>core.Place\<close>; \<^verbatim>\<open>BuildStrategy()\<close>;
  \<^verbatim>\<open>core.is_cuda_graph_capturing()\<close>; the constructor \<^verbatim>\<open>core.CompiledProgram(...)\<close> with its
  arguments in the order of lines 312-320; \<^verbatim>\<open>core.create_paddle_predictor\<close>; and
  \<^verbatim>\<open>executor.local_scopes()\<close>. \<open>'g\<close> is the type of graphs, \<open>'p\<close> of places, \<open>'q\<close> of
  \<^verbatim>\<open>core.Place\<close> objects, \<open>'s\<close> of scopes, \<open>'x\<close> of executors, \<open>'ic\<close> of inference configs.
\<close>

record ('a, 'g, 'p, 'q, 's, 'x, 'ic) core_api =
  Graph_ctor :: "'a Program \<Rightarrow> 'g"
  graph_nodes :: "'g \<Rightarrow> Node list"
  place_equals :: "'p \<Rightarrow> 'p \<Rightarrow> bool"
  is_CUDAPlace :: "'p \<Rightarrow> bool"
  is_XPUPlace :: "'p \<Rightarrow> bool"
  place_obj :: "'p option \<Rightarrow> py_error + 'q"
  new_BuildStrategy :: BuildStrategy
  is_cuda_graph_capturing :: bool
  core_CompiledProgram ::
    "'q list \<Rightarrow> string list \<Rightarrow> string \<Rightarrow> 's option \<Rightarrow> 's list \<Rightarrow> BuildStrategy \<Rightarrow> 'g
       \<Rightarrow> py_error + 'x"
  create_paddle_predictor :: "'ic \<Rightarrow> py_error + 'x"
  executor_local_scopes :: "'x \<Rightarrow> 's list"

text \<open>
  The attributes of a \<^verbatim>\<open>CompiledProgram\<close>. \<open>share_vars_from\<close> is \<open>None\<close> for \<^verbatim>\<open>None\<close> and
  otherwise holds the \<^verbatim>\<open>_executor\<close> of the program shared from, which is all the file reads
  of it. \<open>stderr\<close> collects what is written to \<^verbatim>\<open>sys.stderr\<close>.
\<close>

record ('a, 'g, 'p, 's, 'x, 'ic) CompiledProgram =
  graph :: 'g
  program :: "'a Program option"
  scope :: "'s option"
  place :: "'p option"
  executor :: "'x option"
  compiled :: bool
  is_inference :: bool
  infer_config :: "'ic option"
  share_vars_from :: "'x option option"
  places :: "'p option list option"
  build_strategy :: "BuildStrategy option"
  local_scopes :: "'s list"
  persistable_vars :: "string list"
  stderr :: "string list"

text \<open>The argument of the constructor: a Graph, a Program, or an object of another type.\<close>

datatype ('a, 'g) program_or_graph =
    GraphArg 'g
  | ProgramArg "'a Program"
  | OtherArg string

text \<open>\<^verbatim>\<open>CompiledProgram.__init__\<close> (lines 173-198).\<close>

definition fresh_CompiledProgram ::
  "'g \<Rightarrow> 'a Program option \<Rightarrow> BuildStrategy option \<Rightarrow> ('a, 'g, 'p, 's, 'x, 'ic) CompiledProgram" where
  "fresh_CompiledProgram g prog bs =
     \<lparr>graph = g, program = prog, scope = None, place = None, executor = None,
      compiled = False, is_inference = False, infer_config = None, share_vars_from = None,
      places = None, build_strategy = bs, local_scopes = [], persistable_vars = [],
      stderr = []\<rparr>"

definition CompiledProgram_init ::
  "('a, 'g, 'p, 'q, 's, 'x, 'ic) core_api \<Rightarrow> ('a, 'g) program_or_graph \<Rightarrow> BuildStrategy option
     \<Rightarrow> py_error + ('a, 'g, 'p, 's, 'x, 'ic) CompiledProgram" where
  "CompiledProgram_init api arg bs =
     (case arg of
        GraphArg g \<Rightarrow> Inr (fresh_CompiledProgram g None bs)
      | ProgramArg prog \<Rightarrow>
          (case prune_feed_ops prog of
             Inl e \<Rightarrow> Inl e
           | Inr prog' \<Rightarrow> Inr (fresh_CompiledProgram (Graph_ctor api prog') (Some prog') bs))
      | OtherArg tyname \<Rightarrow>
          Inl (TypeError
            (''The type of program_to_graph parameter is wrong, expected Graph or Program, but received ''
               @ tyname)))"

subsection \<open>Data-parallel compilation\<close>

text \<open>
  The loop of lines 285-298 over \<^verbatim>\<open>self._graph.nodes()\<close>: the names appended to
  \<^verbatim>\<open>self._persistable_vars\<close>, in the order of the nodes.
\<close>

definition collect_persistable_vars :: "Node list \<Rightarrow> 'a Program option \<Rightarrow> string list" where
  "collect_persistable_vars ns prog =
     map name
       (filter
          (\<lambda>node.
             (is_var node \<and>
              (case var node of None \<Rightarrow> False | Some v \<Rightarrow> persistable v \<and> var_type v \<noteq> RAW)) \<and>
             (case prog of None \<Rightarrow> False | Some p \<Rightarrow> should_broadcast_or_not_exists p (name node)))
          ns)"

text \<open>
  Lines 305-306: \<^verbatim>\<open>list(set(xs))\<close> lists the distinct elements of \<open>xs\<close> in an order of the
  interpreter's choosing and \<^verbatim>\<open>sort()\<close> puts them in ascending order of Python's string
  comparison, which is the lexicographic order on the characters. The result is the same
  for every order the set is listed in (lemma \<open>sort_set_order\<close> below).
\<close>

definition set_then_sort :: "string list \<Rightarrow> string list" where
  "set_then_sort xs = sort (remdups xs)"

text \<open>Lines 251-261: the trainer endpoints of the program go to the build strategy.\<close>

definition set_trainer_endpoints ::
  "'a Program option \<Rightarrow> BuildStrategy \<Rightarrow> py_error option \<times> BuildStrategy" where
  "set_trainer_endpoints prog bs =
     (case prog of
        None \<Rightarrow> (None, bs)
      | Some p \<Rightarrow>
          (if num_trainers bs > 1 \<and> priv_trainers_endpoints p \<noteq> [] then
             (if num_trainers bs = int (length (priv_trainers_endpoints p))
              then (None, bs\<lparr>trainers_endpoints := priv_trainers_endpoints p\<rparr>)
              else (Some (AssertionError
                      ''The trainer numbers is not equal to endpoint numbers.''), bs))
           else (None, bs)))"

text \<open>Lines 263-270.\<close>

definition copy_allreduce_config :: "'a Program option \<Rightarrow> BuildStrategy \<Rightarrow> BuildStrategy" where
  "copy_allreduce_config prog bs =
     (case prog of
        None \<Rightarrow> bs
      | Some p \<Rightarrow>
          bs\<lparr>nccl_comm_num := priv_nccl_comm_num p,
             use_hierarchical_allreduce := priv_use_hierarchical_allreduce p,
             hierarchical_allreduce_inter_nranks := priv_hierarchical_allreduce_inter_nranks p\<rparr>)"

text \<open>Lines 272-283.\<close>

definition check_dgc ::
  "'a Program option \<Rightarrow> nat \<Rightarrow> BuildStrategy \<Rightarrow> py_error option \<times> BuildStrategy" where
  "check_dgc prog n_places bs =
     (case prog of
        None \<Rightarrow> (None, bs)
      | Some p \<Rightarrow>
          (if priv_enable_dgc p then
             (if \<not> num_trainers bs * int n_places > 1
              then (Some (AssertionError ''DGC is not available for single card training.''), bs)
              else if reduce_strategy bs \<noteq> AllReduce
              then (Some (AssertionError
                      ''DGC                 only can be used for AllReduce BuildStrategy.''), bs)
              else (None, bs\<lparr>fuse_all_reduce_ops := False\<rparr>))
           else (None, bs)))"

text \<open>\<^verbatim>\<open>list(map(f, xs))\<close> for an \<open>f\<close> that may raise: the first exception ends the map.\<close>

fun map_raising :: "('b \<Rightarrow> py_error + 'c) \<Rightarrow> 'b list \<Rightarrow> py_error + 'c list" where
  "map_raising f [] = Inr []"
| "map_raising f (x # xs) =
     (case f x of
        Inl e \<Rightarrow> Inl e
      | Inr y \<Rightarrow> (case map_raising f xs of Inl e \<Rightarrow> Inl e | Inr ys \<Rightarrow> Inr (y # ys)))"

text \<open>
  \<^verbatim>\<open>CompiledProgram._compile_data_parallel\<close>, lines 241-320. \<open>places'\<close> is a list in the
  model, so the assertion of line 241 holds. A method that returns a value yields the
  value or the exception, and the object as the call leaves it.
\<close>

definition compile_data_parallel_body ::
  "('a, 'g, 'p, 'q, 's, 'x, 'ic) core_api \<Rightarrow> 'p option list
     \<Rightarrow> ('a, 'g, 'p, 's, 'x, 'ic) CompiledProgram
     \<Rightarrow> (py_error + 'x) \<times> ('a, 'g, 'p, 's, 'x, 'ic) CompiledProgram" where
  "compile_data_parallel_body api places' self =
     (let bs0 = (case build_strategy self of None \<Rightarrow> new_BuildStrategy api | Some b \<Rightarrow> b)
      in case set_trainer_endpoints (program self) bs0 of
           (Some e, bs1) \<Rightarrow> (Inl e, self\<lparr>build_strategy := Some bs1\<rparr>)
         | (None, bs1) \<Rightarrow>
             (case check_dgc (program self) (length places')
                     (copy_allreduce_config (program self) bs1) of
                (Some e, bs3) \<Rightarrow> (Inl e, self\<lparr>build_strategy := Some bs3\<rparr>)
              | (None, bs3) \<Rightarrow>
                  (let s1 = self\<lparr>build_strategy := Some bs3,
                                  persistable_vars :=
                                    collect_persistable_vars (graph_nodes api (graph self))
                                      (program self)\<rparr>
                   in case map_raising (place_obj api) places' of
                        Inl e \<Rightarrow> (Inl e, s1)
                      | Inr place_objs \<Rightarrow>
                          (let s2 = s1\<lparr>persistable_vars := set_then_sort (persistable_vars s1)\<rparr>
                           in if is_cuda_graph_capturing api then
                                (Inl (RuntimeError
                                   ''CUDA Graph is not allowed to capture when running the first batch.''),
                                 s2)
                              else
                                (core_CompiledProgram api place_objs (persistable_vars s2) []
                                   (scope s2) (local_scopes s2) bs3 (graph s2), s2)))))"

text \<open>\<^verbatim>\<open>CompiledProgram._compile_data_parallel\<close>, lines 227-240, and then the rest.\<close>

definition compile_data_parallel ::
  "('a, 'g, 'p, 'q, 's, 'x, 'ic) core_api \<Rightarrow> 'p option list \<Rightarrow> DeviceType \<Rightarrow> 's option
     \<Rightarrow> ('a, 'g, 'p, 's, 'x, 'ic) CompiledProgram
     \<Rightarrow> (py_error + 'x) \<times> ('a, 'g, 'p, 's, 'x, 'ic) CompiledProgram" where
  "compile_data_parallel api places' use_device scope' self =
     (case share_vars_from self of
        Some shared_executor \<Rightarrow>
          (let s0 = (if scope' \<noteq> None
                     then self\<lparr>stderr := stderr self @
                            [''share_vars_from is set, scope is ignored.'' @ [CHR 0x0A]]\<rparr>
                     else self)
           in case shared_executor of
                None \<Rightarrow>
                  (Inl (ValueError
                     (''The shared Program is not compiled and executed, so there is no '' @
                      ''variables to share.'')), s0)
              | Some ex \<Rightarrow>
                  compile_data_parallel_body api places'
                    (s0\<lparr>local_scopes := executor_local_scopes api ex\<rparr>))
      | None \<Rightarrow>
          (if scope' = None then (Inl (AssertionError []), self)
           else compile_data_parallel_body api places' (self\<lparr>local_scopes := []\<rparr>)))"

text \<open>\<^verbatim>\<open>CompiledProgram._compile_inference\<close> (lines 322-323).\<close>

definition compile_inference ::
  "('a, 'g, 'p, 'q, 's, 'x, 'ic) core_api \<Rightarrow> ('a, 'g, 'p, 's, 'x, 'ic) CompiledProgram
     \<Rightarrow> py_error + 'x" where
  "compile_inference api self =
     (case infer_config self of
        None \<Rightarrow> Inl (AttributeError ''_infer_config'')
      | Some config \<Rightarrow> create_paddle_predictor api config)"

text \<open>
  \<^verbatim>\<open>CompiledProgram._compile\<close> (lines 325-361). It returns \<^verbatim>\<open>self\<close>: the result is the
  exception, if one was raised, and the object. \<^verbatim>\<open>if scope\<close> and \<^verbatim>\<open>if place\<close> test for
  \<^verbatim>\<open>None\<close>; calling \<^verbatim>\<open>_equals\<close> on a \<^verbatim>\<open>self._place\<close> that is \<^verbatim>\<open>None\<close> is an AttributeError.
\<close>

definition compile ::
  "('a, 'g, 'p, 'q, 's, 'x, 'ic) core_api \<Rightarrow> 's option \<Rightarrow> 'p option
     \<Rightarrow> ('a, 'g, 'p, 's, 'x, 'ic) CompiledProgram
     \<Rightarrow> py_error option \<times> ('a, 'g, 'p, 's, 'x, 'ic) CompiledProgram" where
  "compile api scope' place' self =
     (if compiled self then
        (if scope' \<noteq> None \<and> scope self \<noteq> scope'
         then (Some (ValueError ''Cannot compile program with different scope.''), self)
         else
           (case place' of
              None \<Rightarrow> (None, self)
            | Some new_place \<Rightarrow>
                (case place self of
                   None \<Rightarrow> (Some (AttributeError ''_equals''), self)
                 | Some old_place \<Rightarrow>
                     (if \<not> place_equals api old_place new_place
                      then (Some (ValueError ''Cannot compile program with different place.''),
                            self)
                      else (None, self)))))
      else
        (let s1 = self\<lparr>compiled := True, scope := scope', place := place'\<rparr>
         in if is_inference s1 then
              (case compile_inference api s1 of
                 Inl e \<Rightarrow> (Some e, s1)
               | Inr ex \<Rightarrow> (None, s1\<lparr>executor := Some ex\<rparr>))
            else
              (let s2 = s1\<lparr>places := Some [place s1]\<rparr>;
                   use_device =
                     (case place s2 of
                        None \<Rightarrow> CPU
                      | Some pl \<Rightarrow>
                          if is_CUDAPlace api pl then CUDA
                          else if is_XPUPlace api pl then XPU else CPU)
               in case compile_data_parallel api [place s1] use_device (scope s2) s2 of
                    (Inl e, s3) \<Rightarrow> (Some e, s3)
                  | (Inr ex, s3) \<Rightarrow> (None, s3\<lparr>executor := Some ex\<rparr>))))"

subsection \<open>A core to run the compiler on\<close>

text \<open>
  Graphs are node lists, places and scopes are numbers, an executor records the
  persistable variables it was built with. The graph of a program has one persistable
  tensor node for each of its variables.
\<close>

definition demo_node :: "string \<Rightarrow> bool \<Rightarrow> VarType \<Rightarrow> Node" where
  "demo_node n pers ty =
     \<lparr>is_var = True, var = Some \<lparr>persistable = pers, var_type = ty\<rparr>, name = n\<rparr>"

definition demo_api :: "(unit, Node list, nat, nat, nat, string list, unit) core_api" where
  "demo_api =
     \<lparr>Graph_ctor = (\<lambda>prog. map (\<lambda>(n, v). demo_node n True (NOT_RAW 7)) (vars prog)),
      graph_nodes = (\<lambda>g. g),
      place_equals = (\<lambda>p q. p = q),
      is_CUDAPlace = (\<lambda>p. p = 1),
      is_XPUPlace = (\<lambda>p. p = 2),
      place_obj = (\<lambda>p. case p of None \<Rightarrow> Inl (TypeError ''set_place'') | Some d \<Rightarrow> Inr d),
      new_BuildStrategy =
        \<lparr>num_trainers = 1, trainers_endpoints = [], nccl_comm_num = 1,
         use_hierarchical_allreduce = False, hierarchical_allreduce_inter_nranks = 0,
         reduce_strategy = AllReduce, fuse_all_reduce_ops = True\<rparr>,
      is_cuda_graph_capturing = False,
      core_CompiledProgram = (\<lambda>pl pv s sc ls bs g. Inr pv),
      create_paddle_predictor = (\<lambda>c. Inr []),
      executor_local_scopes = (\<lambda>ex. [])\<rparr>"

definition demo_variable :: "bool option \<Rightarrow> Variable" where
  "demo_variable distributed =
     \<lparr>priv_is_distributed = None, is_distributed = distributed, need_check_feed = True\<rparr>"

definition demo_operator :: "string \<Rightarrow> unit Operator" where
  "demo_operator ty = \<lparr>type = ty, is_target = True, payload = ()\<rparr>"

definition demo_program :: "unit Operator list \<Rightarrow> (string \<times> Variable) list \<Rightarrow> unit Program" where
  "demo_program os vs =
     \<lparr>ops = os, vars = vs, lr_scheduler = None, priv_trainers_endpoints = [],
      priv_nccl_comm_num = 1, priv_use_hierarchical_allreduce = False,
      priv_hierarchical_allreduce_inter_nranks = 0, priv_enable_dgc = False\<rparr>"

text \<open>
  Three objects to run it on: a graph with a repeated and unordered set of persistable
  nodes, a distributed one, a RAW one and a non-persistable one; a CompiledProgram of that
  graph with a program that knows \<open>d\<close> (distributed) and \<open>a\<close>; one built from a Graph;
  and the latter after \<^verbatim>\<open>_compile(scope=1, place=0)\<close>.
\<close>

definition demo_graph :: "Node list" where
  "demo_graph =
     [demo_node ''b'' True (NOT_RAW 7), demo_node ''a'' True (NOT_RAW 7),
      demo_node ''b'' True (NOT_RAW 7), demo_node ''d'' True (NOT_RAW 7),
      demo_node ''r'' True RAW, demo_node ''n'' False (NOT_RAW 7)]"

definition demo_from_program :: "(unit, Node list, nat, nat, string list, unit) CompiledProgram" where
  "demo_from_program =
     (fresh_CompiledProgram demo_graph
        (Some (demo_program [] [(''d'', demo_variable (Some True)), (''a'', demo_variable None)]))
        None)\<lparr>scope := Some 0\<rparr>"

definition demo_from_graph :: "(unit, Node list, nat, nat, string list, unit) CompiledProgram" where
  "demo_from_graph = fresh_CompiledProgram [demo_node ''w'' True (NOT_RAW 7)] None None"

definition demo_compiled :: "(unit, Node list, nat, nat, string list, unit) CompiledProgram" where
  "demo_compiled = snd (compile demo_api (Some 1) (Some 0) demo_from_graph)"

section \<open>IpuCompiledProgram\<close>

text \<open>
  The program that \<^verbatim>\<open>IpuCompiledProgram.compile\<close> returns is a \<^verbatim>\<open>Program\<close> that may carry the
  attribute \<^verbatim>\<open>org_program\<close> (\<open>None\<close>: it has no such attribute).
\<close>

record 'a IpuProgram = "'a Program" +
  org_program :: "'a Program option"

text \<open>\<^verbatim>\<open>core.IpuBackend\<close>: what \<^verbatim>\<open>set_scope\<close> and \<^verbatim>\<open>set_ipu_strategy\<close> were last called with.\<close>

record ('s, 'c) IpuBackend =
  backend_scope :: "'s option"
  backend_ipu_strategy :: "'c option"

text \<open>
  The attributes of an \<^verbatim>\<open>IpuCompiledProgram\<close>, each behind the prefix \<open>icp\<close>.
  \<^verbatim>\<open>_custom_op_names\<close> is a set of names (or the empty tuple, here the empty set).
\<close>

record ('a, 'g, 's, 'c) IpuCompiledProgram =
  icp_program :: "'a Program"
  icp_compiled :: bool
  icp_scope :: 's
  icp_ipu_strategy :: "'c IpuStrategy"
  icp_custom_op_names :: "string set"
  icp_backend :: "('s, 'c) IpuBackend"
  icp_graph :: "'g option"

text \<open>The values that \<^verbatim>\<open>a_pass.set(name, value)\<close> is called with.\<close>

datatype pass_attr = AttrList "string list" | AttrSet "string set"

text \<open>
  The pass library, not part of the file:
  \<^item> \<open>ipu_Graph\<close> is \<^verbatim>\<open>core.Graph(self._program.desc)\<close>;
  \<^item> \<open>apply_pass name attrs g\<close> is \<^verbatim>\<open>core.get_pass(name)\<close>, a \<^verbatim>\<open>set\<close> for each attribute and
    \<^verbatim>\<open>a_pass.apply(self._graph)\<close>: the exception raised, if any, and the graph as the pass
    leaves it (a pass works on the graph in place);
  \<^item> \<open>graph_to_program\<close> is the \<^verbatim>\<open>graph_to_program_pass\<close> on a fresh \<^verbatim>\<open>ProgramDesc\<close> followed
    by \<^verbatim>\<open>Program._construct_from_desc\<close>.
\<close>

record ('a, 'g) pass_api =
  ipu_Graph :: "'a Program \<Rightarrow> 'g"
  apply_pass :: "string \<Rightarrow> (string \<times> pass_attr) list \<Rightarrow> 'g \<Rightarrow> py_error option \<times> 'g"
  graph_to_program :: "'g \<Rightarrow> py_error + 'a IpuProgram"

text \<open>
  Lines 1180-1192: every operator of the global block loses its \<^verbatim>\<open>is_target\<close> flag, the
  \<open>feed\<close> and \<open>fetch\<close> operators are removed, last index first, and the variables named
  \<open>feed\<close> and \<open>fetch\<close> are removed if the block has them.
\<close>

definition remove_var :: "string \<Rightarrow> (string \<times> Variable) list \<Rightarrow> (string \<times> Variable) list" where
  "remove_var v vs = (if v \<in> dict_keys vs then AList.delete v vs else vs)"

definition strip_feed_fetch :: "'a Program \<Rightarrow> py_error + 'a Program" where
  "strip_feed_fetch prog =
     (let ops1 = map (\<lambda>op. op\<lparr>is_target := False\<rparr>) (ops prog);
          need_to_remove_op_index =
            indices_where (\<lambda>op. type op = ''feed'' \<or> type op = ''fetch'') ops1
      in case remove_ops (rev need_to_remove_op_index) ops1 of
           Inl e \<Rightarrow> Inl e
         | Inr ops2 \<Rightarrow>
             Inr (prog\<lparr>ops := ops2, vars := remove_var ''fetch'' (remove_var ''feed'' (vars prog))\<rparr>))"

text \<open>
  The passes of lines 1197-1232 in the order they are applied, each with the attributes
  set on it.
\<close>

definition ipu_pipeline ::
  "bool \<Rightarrow> string list \<Rightarrow> string list \<Rightarrow> string set \<Rightarrow> (string \<times> (string \<times> pass_attr) list) list" where
  "ipu_pipeline is_training feed_list fetch_list custom_ops =
     (if is_training
      then [(''optimizer_extract_pass'', []), (''optimizer_state_align_pass'', [])]
      else []) @
     [(''forward_graph_extract_pass'', []),
      (''infer_shape_pass'', [(''feed_list'', AttrList feed_list)]),
      (''avg_shard_pass'', []),
      (''delete_scale_op_pass'', [])] @
     [(''popart_canonicalization_pass'',
       if custom_ops \<noteq> {} then [(''custom_ops'', AttrSet custom_ops)] else [])] @
     map (\<lambda>pass_name.
            (pass_name, [(''feed_list'', AttrList feed_list), (''fetch_list'', AttrList fetch_list)]))
       [''ipu_inplace_pass'', ''ipu_graph_builder_pass'', ''ipu_runtime_replacer_pass'']"

fun apply_passes ::
  "('a, 'g) pass_api \<Rightarrow> (string \<times> (string \<times> pass_attr) list) list \<Rightarrow> 'g \<Rightarrow> py_error option \<times> 'g" where
  "apply_passes api [] g = (None, g)"
| "apply_passes api ((pass_name, attrs) # rest) g =
     (case apply_pass api pass_name attrs g of
        (Some e, g') \<Rightarrow> (Some e, g')
      | (None, g') \<Rightarrow> apply_passes api rest g')"

text \<open>
  Lines 1240-1248: the scheduler object of the source program is shared with the new
  program, and its \<^verbatim>\<open>lr_var\<close> is set to the source block's variable of that name (a
  \<^verbatim>\<open>KeyError\<close> if there is none). Both programs hold the same scheduler object.
\<close>

definition share_lr_scheduler ::
  "'a Program \<Rightarrow> 'a IpuProgram \<Rightarrow> py_error + 'a Program \<times> 'a IpuProgram" where
  "share_lr_scheduler src prog =
     (case lr_scheduler src of
        None \<Rightarrow> Inr (src, prog)
      | Some sched \<Rightarrow>
          (case map_of (vars src) (var_name sched) of
             None \<Rightarrow> Inl (KeyError (var_name sched))
           | Some v \<Rightarrow>
               Inr (src\<lparr>lr_scheduler := Some (sched\<lparr>lr_var := Some v\<rparr>)\<rparr>,
                    prog\<lparr>lr_scheduler := Some (sched\<lparr>lr_var := Some v\<rparr>)\<rparr>)))"

text \<open>
  Modelled from the spec: \<^verbatim>\<open>Block.var(name)\<close> of \<^verbatim>\<open>framework.py\<close> (not part of the file) is
  the spec's \<^verbatim>\<open>findValue(name)\<close> on the block: it returns the variable of that name and
  raises a \<^verbatim>\<open>ValueError\<close> when the block has none.

  Lines 1254-1257: for each feed name, the variable's \<^verbatim>\<open>need_check_feed\<close> is set to false.
\<close>

fun clear_need_check_feed ::
  "string list \<Rightarrow> (string \<times> Variable) list \<Rightarrow> py_error + (string \<times> Variable) list" where
  "clear_need_check_feed [] vs = Inr vs"
| "clear_need_check_feed (feed_name # rest) vs =
     (case map_of vs feed_name of
        None \<Rightarrow> Inl (ValueError (''var '' @ feed_name @ '' not in this block''))
      | Some feed_var \<Rightarrow>
          clear_need_check_feed rest
            (AList.update feed_name (feed_var\<lparr>need_check_feed := False\<rparr>) vs))"

text \<open>\<^verbatim>\<open>IpuCompiledProgram.compile\<close> (lines 1139-1264).\<close>

definition ipu_compile ::
  "('a, 'g) pass_api \<Rightarrow> (string \<Rightarrow> 'c \<Rightarrow> py_error + options) \<Rightarrow> string list \<Rightarrow> string list
     \<Rightarrow> ('a, 'g, 's, 'c) IpuCompiledProgram
     \<Rightarrow> (py_error + 'a IpuProgram) \<times> ('a, 'g, 's, 'c) IpuCompiledProgram" where
  "ipu_compile api core_get feed_list fetch_list self =
     (let s0 = self\<lparr>icp_backend :=
                 \<lparr>backend_scope = Some (icp_scope self),
                  backend_ipu_strategy = Some (ipu_strategy (icp_ipu_strategy self))\<rparr>\<rparr>
      in case strip_feed_fetch (icp_program s0) of
           Inl e \<Rightarrow> (Inl e, s0)
         | Inr p1 \<Rightarrow>
             (let s1 = s0\<lparr>icp_program := p1, icp_graph := Some (ipu_Graph api p1)\<rparr>
              in case get_option core_get ''is_training'' (icp_ipu_strategy s1) of
                   Inl e \<Rightarrow> (Inl e, s1)
                 | Inr is_training \<Rightarrow>
                     (case apply_passes api
                             (ipu_pipeline (truthy is_training) feed_list fetch_list
                                (icp_custom_op_names s1))
                             (ipu_Graph api p1) of
                        (Some e, g) \<Rightarrow> (Inl e, s1\<lparr>icp_graph := Some g\<rparr>)
                      | (None, g) \<Rightarrow>
                          (let s2 = s1\<lparr>icp_graph := Some g\<rparr>
                           in case graph_to_program api g of
                                Inl e \<Rightarrow> (Inl e, s2)
                              | Inr prog \<Rightarrow>
                                  (case share_lr_scheduler (icp_program s2) prog of
                                     Inl e \<Rightarrow> (Inl e, s2)
                                   | Inr (src, prog1) \<Rightarrow>
                                       (let s3 = s2\<lparr>icp_program := src\<rparr>
                                        in case clear_need_check_feed feed_list (vars prog1) of
                                             Inl e \<Rightarrow> (Inl e, s3)
                                           | Inr vs \<Rightarrow>
                                               (let prog2 = prog1\<lparr>vars := vs\<rparr>;
                                                    prog3 =
                                                      (if org_program prog2 = None
                                                       then prog2\<lparr>org_program := Some (icp_program s3)\<rparr>
                                                       else prog2)
                                                in (Inr prog3,
                                                    s3\<lparr>icp_ipu_strategy :=
                                                         (icp_ipu_strategy s3)\<lparr>need_compile := False\<rparr>\<rparr>))))))))"

text \<open>
  A pass library to run the compiler on: a graph is the list of the passes applied so
  far, and the program converted from it has one operator and the variables \<open>x\<close> and
  \<open>y\<close>; and an IpuCompiledProgram of a three-operator program with a training strategy.
\<close>

definition demo_pass_api :: "(unit, string list) pass_api" where
  "demo_pass_api =
     \<lparr>ipu_Graph = (\<lambda>prog. []),
      apply_pass = (\<lambda>pass_name attrs g. (None, g @ [pass_name])),
      graph_to_program =
        (\<lambda>g. Inr (Program.extend
                    (demo_program [demo_operator ''popart_matmul'']
                       [(''x'', demo_variable None), (''y'', demo_variable None)])
                    (IpuProgram.fields None)))\<rparr>"

definition demo_icp :: "(unit, string list, nat, options) IpuCompiledProgram" where
  "demo_icp =
     \<lparr>icp_program =
        demo_program [demo_operator ''feed'', demo_operator ''matmul'', demo_operator ''fetch'']
          [(''feed'', demo_variable None), (''x'', demo_variable None),
           (''y'', demo_variable None), (''fetch'', demo_variable None)],
      icp_compiled = False,
      icp_scope = 0,
      icp_ipu_strategy = new_strategy [(''is_training'', VBool True)],
      icp_custom_op_names = {},
      icp_backend = \<lparr>backend_scope = None, backend_ipu_strategy = None\<rparr>,
      icp_graph = None\<rparr>"

section \<open>Strategy configuration: recompilation flag and structural guards\<close>

lemma set_options_cases:
  "set_options core_set opts self =
     (case core_set opts (ipu_strategy self) of
        (Some e, c) \<Rightarrow> (Some e, self\<lparr>ipu_strategy := c\<rparr>)
      | (None, c) \<Rightarrow>
          (None, self\<lparr>ipu_strategy := c,
                     need_compile := need_compile self \<or> \<not> dict_keys opts \<subseteq> recompile_white_list\<rparr>))"
  by (auto simp: set_options_def split: prod.splits option.splits)

text \<open>
  Claim C2. For every call \<^verbatim>\<open>set_options(options)\<close>: if every key of \<open>options\<close> is in the
  allow-list \<open>{'lr'}\<close>, \<open>need_compile\<close> keeps the value it had before the call (whether
  the core accepted the options or raised); if some key is outside the allow-list and the
  call returns, \<open>need_compile\<close> is true afterwards.
\<close>

theorem set_options_need_compile:
  "(dict_keys opts \<subseteq> recompile_white_list \<longrightarrow>
      need_compile (snd (set_options core_set opts self)) = need_compile self) \<and>
   (\<not> dict_keys opts \<subseteq> recompile_white_list \<and> fst (set_options core_set opts self) = None \<longrightarrow>
      need_compile (snd (set_options core_set opts self)))"
  by (auto simp: set_options_cases split: prod.splits option.splits)

theorem set_options_need_compile_witness:
  "dict_keys [(''lr'', VFloat (1 / 10))] \<subseteq> recompile_white_list \<and>
   need_compile (snd (set_options (store_set_options graph_schema) [(''lr'', VFloat (1 / 10))]
      ((new_strategy [])\<lparr>need_compile := False\<rparr>))) = False \<and>
   \<not> dict_keys [(''lr'', VFloat (1 / 10)), (''num_ipus'', VInt 2)] \<subseteq> recompile_white_list \<and>
   fst (set_options (store_set_options graph_schema) [(''lr'', VFloat (1 / 10)), (''num_ipus'', VInt 2)]
      ((new_strategy [])\<lparr>need_compile := False\<rparr>)) = None \<and>
   need_compile (snd (set_options (store_set_options graph_schema)
      [(''lr'', VFloat (1 / 10)), (''num_ipus'', VInt 2)]
      ((new_strategy [])\<lparr>need_compile := False\<rparr>)))"
proof -
  have k1: "dict_keys [(''lr'', VFloat (1 / 10))] \<subseteq> recompile_white_list"
    by (simp add: dict_keys_def recompile_white_list_def)
  have k2: "\<not> dict_keys [(''lr'', VFloat (1 / 10)), (''num_ipus'', VInt 2)] \<subseteq> recompile_white_list"
    by (simp add: dict_keys_def recompile_white_list_def)
  have r2: "fst (set_options (store_set_options graph_schema)
      [(''lr'', VFloat (1 / 10)), (''num_ipus'', VInt 2)]
      ((new_strategy [])\<lparr>need_compile := False\<rparr>)) = None"
    by (simp add: set_options_cases store_set_options_def graph_schema_def new_strategy_def)
  from k1 k2 r2
    set_options_need_compile [of "[(''lr'', VFloat (1 / 10))]" "store_set_options graph_schema"
      "(new_strategy [])\<lparr>need_compile := False\<rparr>"]
    set_options_need_compile [of "[(''lr'', VFloat (1 / 10)), (''num_ipus'', VInt 2)]"
      "store_set_options graph_schema" "(new_strategy [])\<lparr>need_compile := False\<rparr>"]
  show ?thesis by (simp add: new_strategy_def)
qed

lemma set_graph_config_cases:
  "set_graph_config core_set num_ipus is_training micro_batch_size enable_manual_shard self =
     (if num_ipus = 1 \<and> enable_manual_shard
      then (Some (RuntimeError
                    ''Only if num_ipus > 1, enable_manual_shard is able to be set True.''), self)
      else set_options core_set
             (graph_config_options num_ipus is_training micro_batch_size enable_manual_shard) self)"
  by (simp add: set_graph_config_def)

lemma set_graph_config_no_guard:
  "enable_manual_shard = False \<or> num_ipus > 1 \<Longrightarrow>
   set_graph_config core_set num_ipus is_training micro_batch_size enable_manual_shard self =
     set_options core_set
       (graph_config_options num_ipus is_training micro_batch_size enable_manual_shard) self"
  by (auto simp: set_graph_config_def)

lemma set_graph_config_one_ipu:
  "set_graph_config core_set 1 is_training micro_batch_size True self =
     (Some (RuntimeError ''Only if num_ipus > 1, enable_manual_shard is able to be set True.''),
      self)"
  by (simp add: set_graph_config_def)

text \<open>
  Claim C5. The docstring and the error message of \<^verbatim>\<open>set_graph_config\<close> say that
  \<open>enable_manual_shard\<close> can be set true only if \<open>num_ipus > 1\<close>, but the guard of line 780
  tests \<open>num_ipus == 1\<close>. With \<open>num_ipus = 0\<close> and \<open>enable_manual_shard = True\<close> the guard
  does not fire: on the option store the call returns normally and leaves
  \<open>enable_manual_shard\<close> set to true with \<open>num_ipus = 0\<close>.
\<close>

theorem set_graph_config_zero_ipus:
  "fst (set_graph_config (store_set_options graph_schema) 0 True 1 True (new_strategy [])) = None \<and>
   get_option store_get_option ''enable_manual_shard''
     (snd (set_graph_config (store_set_options graph_schema) 0 True 1 True (new_strategy [])))
     = Inr (VBool True) \<and>
   get_option store_get_option ''num_ipus''
     (snd (set_graph_config (store_set_options graph_schema) 0 True 1 True (new_strategy [])))
     = Inr (VInt 0)"
  by (simp add: set_graph_config_def graph_config_options_def set_options_def
      store_set_options_def graph_schema_def new_strategy_def get_option_def
      store_get_option_def dict_keys_def recompile_white_list_def)

text \<open>
  Claim C6. When the current \<open>enable_manual_shard\<close> option is read as \<open>ms\<close>:
  a call of \<^verbatim>\<open>set_pipelining_config\<close> with \<open>enable_pipelining = True\<close> while \<open>ms\<close> is false
  raises the RuntimeError of line 833 and leaves the strategy as it was (no option is
  set); when \<open>ms\<close> is true or \<open>enable_pipelining = False\<close>, the call is exactly
  \<^verbatim>\<open>set_options\<close> on the four options \<open>enable_pipelining\<close>, \<open>batches_per_step\<close>,
  \<open>enable_gradient_accumulation\<close>, \<open>accumulation_factor\<close>.
\<close>

theorem set_pipelining_config_guard:
  assumes "get_option core_get ''enable_manual_shard'' self = Inr ms"
  shows "(enable_pipelining \<and> \<not> truthy ms \<longrightarrow>
            set_pipelining_config core_get core_set enable_pipelining batches_per_step
              enable_gradient_accumulation accumulation_factor self =
            (Some (RuntimeError
               ''Only if enable_manual_shard=True, enable_pipelining is able to be set True.''),
             self)) \<and>
         (truthy ms \<or> enable_pipelining = False \<longrightarrow>
            set_pipelining_config core_get core_set enable_pipelining batches_per_step
              enable_gradient_accumulation accumulation_factor self =
            set_options core_set
              [(''enable_pipelining'', VBool enable_pipelining),
               (''batches_per_step'', VInt batches_per_step),
               (''enable_gradient_accumulation'', VBool enable_gradient_accumulation),
               (''accumulation_factor'', VInt accumulation_factor)] self)"
  using assms by (auto simp: set_pipelining_config_def pipelining_config_options_def)

theorem set_pipelining_config_guard_witness:
  "get_option store_get_option ''enable_manual_shard''
       (new_strategy [(''enable_manual_shard'', VBool False)]) = Inr (VBool False) \<and>
   set_pipelining_config store_get_option (store_set_options graph_schema) True 4 False 1
       (new_strategy [(''enable_manual_shard'', VBool False)]) =
     (Some (RuntimeError
        ''Only if enable_manual_shard=True, enable_pipelining is able to be set True.''),
      new_strategy [(''enable_manual_shard'', VBool False)]) \<and>
   get_option store_get_option ''enable_manual_shard''
       (new_strategy [(''enable_manual_shard'', VBool True)]) = Inr (VBool True) \<and>
   fst (set_pipelining_config store_get_option (store_set_options graph_schema) True 4 False 1
       (new_strategy [(''enable_manual_shard'', VBool True)])) = None \<and>
   ipu_strategy (snd (set_pipelining_config store_get_option (store_set_options graph_schema)
       True 4 False 1 (new_strategy [(''enable_manual_shard'', VBool True)]))) =
     [(''enable_manual_shard'', VBool True), (''enable_pipelining'', VBool True),
      (''batches_per_step'', VInt 4), (''enable_gradient_accumulation'', VBool False),
      (''accumulation_factor'', VInt 1)]"
proof -
  have g0: "get_option store_get_option ''enable_manual_shard''
       (new_strategy [(''enable_manual_shard'', VBool False)]) = Inr (VBool False)"
    by (simp add: get_option_def store_get_option_def new_strategy_def)
  have g1: "get_option store_get_option ''enable_manual_shard''
       (new_strategy [(''enable_manual_shard'', VBool True)]) = Inr (VBool True)"
    by (simp add: get_option_def store_get_option_def new_strategy_def)
  have s1: "set_options (store_set_options graph_schema)
              [(''enable_pipelining'', VBool True), (''batches_per_step'', VInt 4),
               (''enable_gradient_accumulation'', VBool False), (''accumulation_factor'', VInt 1)]
              (new_strategy [(''enable_manual_shard'', VBool True)]) =
            (None, \<lparr>ipu_strategy =
               [(''enable_manual_shard'', VBool True), (''enable_pipelining'', VBool True),
                (''batches_per_step'', VInt 4), (''enable_gradient_accumulation'', VBool False),
                (''accumulation_factor'', VInt 1)],
               has_custom_ops = False, custom_op_names = [], need_compile = True\<rparr>)"
    by (simp add: set_options_def store_set_options_def graph_schema_def new_strategy_def
        dict_keys_def recompile_white_list_def)
  from g0 g1 s1
    set_pipelining_config_guard [OF g0, of True "store_set_options graph_schema" 4 False 1]
    set_pipelining_config_guard [OF g1, of True "store_set_options graph_schema" 4 False 1]
  show ?thesis by simp
qed

section \<open>The cache: hits, builds and growth\<close>

lemma getitem_update: "getitem (AList.update k v d) k = Inr v"
  by (simp add: getitem_def update_conv')

lemma length_update_ge: "length al \<le> length (AList.update k v al)"
  by (induction al) auto

lemma keys_None: "map_of d k = None \<Longrightarrow> k \<notin> dict_keys d"
  by (simp add: dict_keys_def map_of_eq_None_iff)

lemma keys_Some: "map_of d k = Some v \<Longrightarrow> k \<in> dict_keys d \<and> d \<noteq> []"
  by (auto simp: dict_keys_def dest: map_of_SomeD intro: rev_image_eqI)

lemma patch_getter_hit:
  assumes "map_of (caches w) (py_hash tr k) = Some e" "\<not> need_compile (strategy w)"
  shows "patch_getter M tr (CacheKey k) w = (Inr e, w\<lparr>recent_key := Some (py_hash tr k)\<rparr>)"
  using assms keys_Some [of "caches w" "py_hash tr k" e]
  by (simp add: patch_getter_def Let_def getitem_def)

lemma patch_getter_build_ok:
  assumes miss: "map_of (caches w) (py_hash tr k) = None \<or> need_compile (strategy w)"
    and ok: "build_entry tr (strategy w) k = (Inr entry, strat)"
  shows "patch_getter M tr (CacheKey k) w =
    (Inr entry,
     w\<lparr>recent_key := Some (py_hash tr k),
       warnings := warnings w @ early_warnings (py_hash tr k) w @
         (if M < length (AList.update (py_hash tr k) entry (caches w))
          then [TooManyTraced (length (AList.update (py_hash tr k) entry (caches w))) M] else []),
       build_calls := Suc (build_calls w),
       strategy := strat,
       caches := AList.update (py_hash tr k) entry (caches w)\<rparr>)"
proof (cases "map_of (caches w) (py_hash tr k)")
  case None
  note k = keys_None [OF None]
  show ?thesis
  proof (cases "caches w = [] \<or> need_compile (strategy w)")
    case True
    with None k ok show ?thesis
      by (cases "M < length (AList.update (py_hash tr k) entry (caches w))")
        (auto simp: patch_getter_def Let_def warn_def early_warnings_def getitem_update)
  next
    case False
    with None k ok show ?thesis
      by (cases "M < length (AList.update (py_hash tr k) entry (caches w))")
        (auto simp: patch_getter_def Let_def warn_def early_warnings_def getitem_update)
  qed
next
  case (Some v)
  note k = keys_Some [OF Some]
  from miss Some have nc: "need_compile (strategy w)" by simp
  with Some k ok show ?thesis
    by (cases "M < length (AList.update (py_hash tr k) entry (caches w))")
      (auto simp: patch_getter_def Let_def warn_def early_warnings_def getitem_update)
qed

lemma patch_getter_build_fail:
  assumes miss: "map_of (caches w) (py_hash tr k) = None \<or> need_compile (strategy w)"
    and ok: "build_entry tr (strategy w) k = (Inl e, strat)"
  shows "patch_getter M tr (CacheKey k) w =
    (Inl e,
     w\<lparr>recent_key := Some (py_hash tr k),
       warnings := warnings w @ early_warnings (py_hash tr k) w,
       build_calls := Suc (build_calls w),
       strategy := strat\<rparr>)"
proof (cases "map_of (caches w) (py_hash tr k)")
  case None
  note k = keys_None [OF None]
  show ?thesis
  proof (cases "caches w = [] \<or> need_compile (strategy w)")
    case True
    with None k ok show ?thesis
      by (auto simp: patch_getter_def Let_def warn_def early_warnings_def)
  next
    case False
    with None k ok show ?thesis
      by (auto simp: patch_getter_def Let_def warn_def early_warnings_def)
  qed
next
  case (Some v)
  note k = keys_Some [OF Some]
  from miss Some have nc: "need_compile (strategy w)" by simp
  with Some k ok show ?thesis
    by (auto simp: patch_getter_def Let_def warn_def early_warnings_def)
qed

lemma patch_getter_keys:
  "dict_keys (caches w) \<subseteq> dict_keys (caches (snd (patch_getter M tr item w))) \<and>
   length (caches w) \<le> length (caches (snd (patch_getter M tr item w)))"
proof (cases item)
  case (NotCacheKey tyname)
  then show ?thesis by (simp add: patch_getter_def)
next
  case (CacheKey k)
  show ?thesis
  proof (cases "map_of (caches w) (py_hash tr k) = None \<or> need_compile (strategy w)")
    case True
    obtain r strat where b: "build_entry tr (strategy w) k = (r, strat)"
      by (cases "build_entry tr (strategy w) k")
    show ?thesis
    proof (cases r)
      case (Inl e)
      with b patch_getter_build_fail [OF True, of e strat M] CacheKey show ?thesis by simp
    next
      case (Inr entry)
      with b patch_getter_build_ok [OF True, of entry strat M] CacheKey show ?thesis
        by (auto simp: dict_keys_def dom_update length_update_ge)
    qed
  next
    case False
    then obtain e where "map_of (caches w) (py_hash tr k) = Some e" "\<not> need_compile (strategy w)"
      by auto
    from patch_getter_hit [OF this, of M] CacheKey show ?thesis by simp
  qed
qed

lemma lookups_keys:
  "dict_keys (caches w) \<subseteq> dict_keys (caches (lookups M tr items w)) \<and>
   length (caches w) \<le> length (caches (lookups M tr items w))"
proof (induction items arbitrary: w)
  case Nil
  then show ?case by simp
next
  case (Cons item items)
  have step: "dict_keys (caches w) \<subseteq> dict_keys (caches (snd (patch_getter M tr item w)))"
    "length (caches w) \<le> length (caches (snd (patch_getter M tr item w)))"
    using patch_getter_keys [of w M tr item] by simp_all
  have rest: "dict_keys (caches (snd (patch_getter M tr item w)))
        \<subseteq> dict_keys (caches (lookups M tr (item # items) w))"
    "length (caches (snd (patch_getter M tr item w)))
        \<le> length (caches (lookups M tr (item # items) w))"
    using Cons [of "snd (patch_getter M tr item w)"] by simp_all
  from step rest show ?case by (meson order_trans)
qed

text \<open>
  Claim C1. A lookup with a \<^verbatim>\<open>CacheKey\<close> \<open>k\<close> of fingerprint \<open>py_hash tr k\<close>: if the cache
  has an entry for the fingerprint and \<open>need_compile\<close> is false, the entry is returned and
  nothing but \<^verbatim>\<open>_recent_key\<close> changes (the build is not started); otherwise the build is
  started exactly once, and when it yields an entry, that entry is stored under the
  fingerprint and returned.
\<close>

theorem patch_getter_hit_or_build:
  "(\<forall>e. map_of (caches w) (py_hash tr k) = Some e \<and> \<not> need_compile (strategy w) \<longrightarrow>
       patch_getter M tr (CacheKey k) w = (Inr e, w\<lparr>recent_key := Some (py_hash tr k)\<rparr>)) \<and>
   (map_of (caches w) (py_hash tr k) = None \<or> need_compile (strategy w) \<longrightarrow>
       build_calls (snd (patch_getter M tr (CacheKey k) w)) = Suc (build_calls w) \<and>
       (\<forall>entry. fst (build_entry tr (strategy w) k) = Inr entry \<longrightarrow>
          fst (patch_getter M tr (CacheKey k) w) = Inr entry \<and>
          map_of (caches (snd (patch_getter M tr (CacheKey k) w))) (py_hash tr k) = Some entry))"
proof (intro conjI allI impI)
  fix e
  assume "map_of (caches w) (py_hash tr k) = Some e \<and> \<not> need_compile (strategy w)"
  then show "patch_getter M tr (CacheKey k) w = (Inr e, w\<lparr>recent_key := Some (py_hash tr k)\<rparr>)"
    by (simp add: patch_getter_hit)
next
  assume miss: "map_of (caches w) (py_hash tr k) = None \<or> need_compile (strategy w)"
  obtain r strat where b: "build_entry tr (strategy w) k = (r, strat)"
    by (cases "build_entry tr (strategy w) k")
  show "build_calls (snd (patch_getter M tr (CacheKey k) w)) = Suc (build_calls w)"
  proof (cases r)
    case (Inl e)
    with b patch_getter_build_fail [OF miss, of e strat M] show ?thesis by simp
  next
    case (Inr entry)
    with b patch_getter_build_ok [OF miss, of entry strat M] show ?thesis by simp
  qed
next
  fix entry
  assume miss: "map_of (caches w) (py_hash tr k) = None \<or> need_compile (strategy w)"
    and "fst (build_entry tr (strategy w) k) = Inr entry"
  then have b: "build_entry tr (strategy w) k = (Inr entry, snd (build_entry tr (strategy w) k))"
    by (metis prod.collapse)
  from patch_getter_build_ok [OF miss b, of M]
  show "fst (patch_getter M tr (CacheKey k) w) = Inr entry" by simp
  from patch_getter_build_ok [OF miss b, of M]
  show "map_of (caches (snd (patch_getter M tr (CacheKey k) w))) (py_hash tr k) = Some entry"
    by (simp add: update_conv')
qed

lemma demo_build:
  "k \<noteq> 0 \<Longrightarrow> build_entry demo_tracer strat k = (Inr (k, True), strat\<lparr>need_compile := False\<rparr>)"
  by (simp add: build_entry_def demo_tracer_def)

lemma demo_hash: "py_hash demo_tracer k = int k"
  by (simp add: demo_tracer_def)

theorem patch_getter_hit_or_build_witness:
  "patch_getter 1 demo_tracer (CacheKey 3) (demo_world [(3, 7, False)] False) =
     (Inr (7, False), (demo_world [(3, 7, False)] False)\<lparr>recent_key := Some 3\<rparr>) \<and>
   build_calls (snd (patch_getter 1 demo_tracer (CacheKey 3) (demo_world [] False))) = 1 \<and>
   fst (patch_getter 1 demo_tracer (CacheKey 3) (demo_world [] False)) = Inr (3, True) \<and>
   map_of (caches (snd (patch_getter 1 demo_tracer (CacheKey 3) (demo_world [] False)))) 3
     = Some (3, True) \<and>
   build_calls (snd (patch_getter 1 demo_tracer (CacheKey 3) (demo_world [(3, 7, False)] True))) = 1 \<and>
   fst (patch_getter 1 demo_tracer (CacheKey 3) (demo_world [(3, 7, False)] True)) = Inr (3, True)"
proof -
  note h = demo_hash [of 3, simplified]
  have hit: "map_of (caches (demo_world [(3, 7, False)] False)) (py_hash demo_tracer 3) = Some (7, False)
      \<and> \<not> need_compile (strategy (demo_world [(3, 7, False)] False))"
    by (simp add: h demo_world_def new_strategy_def)
  have miss: "map_of (caches (demo_world [] False)) (py_hash demo_tracer 3) = None"
    by (simp add: demo_world_def)
  have stale: "need_compile (strategy (demo_world [(3, 7, False)] True))"
    by (simp add: demo_world_def new_strategy_def)
  have b: "fst (build_entry demo_tracer strat 3) = Inr (3, True)" for strat
    by (simp add: demo_build)
  from hit miss stale b h
    patch_getter_hit_or_build [of "demo_world [(3, 7, False)] False" demo_tracer 3 1]
    patch_getter_hit_or_build [of "demo_world [] False" demo_tracer 3 1]
    patch_getter_hit_or_build [of "demo_world [(3, 7, False)] True" demo_tracer 3 1]
  show ?thesis by (simp add: demo_world_def)
qed

text \<open>
  Claim C8. Over every sequence of lookups (with any arguments, and whether or not a
  lookup raises) the set of cached fingerprints only grows and the number of entries
  never drops. When a lookup builds an entry and the cache then holds more than
  \<open>MAX_TRACED_PROGRAM_COUNT\<close> entries, the warning of line 549 is the last one logged and
  the lookup returns the entry.
\<close>

theorem cache_only_grows:
  "dict_keys (caches w) \<subseteq> dict_keys (caches (lookups M tr items w)) \<and>
   length (caches w) \<le> length (caches (lookups M tr items w)) \<and>
   ((map_of (caches w) (py_hash tr k) = None \<or> need_compile (strategy w)) \<and>
    fst (build_entry tr (strategy w) k) = Inr entry \<and>
    M < length (caches (snd (patch_getter M tr (CacheKey k) w))) \<longrightarrow>
      fst (patch_getter M tr (CacheKey k) w) = Inr entry \<and>
      (\<exists>ws. warnings (snd (patch_getter M tr (CacheKey k) w)) =
         warnings w @ ws @
         [TooManyTraced (length (caches (snd (patch_getter M tr (CacheKey k) w)))) M]))"
proof (intro conjI impI)
  show "dict_keys (caches w) \<subseteq> dict_keys (caches (lookups M tr items w))"
    using lookups_keys [of w M tr items] by simp
  show "length (caches w) \<le> length (caches (lookups M tr items w))"
    using lookups_keys [of w M tr items] by simp
next
  assume a: "(map_of (caches w) (py_hash tr k) = None \<or> need_compile (strategy w)) \<and>
    fst (build_entry tr (strategy w) k) = Inr entry \<and>
    M < length (caches (snd (patch_getter M tr (CacheKey k) w)))"
  then have miss: "map_of (caches w) (py_hash tr k) = None \<or> need_compile (strategy w)"
    and b: "build_entry tr (strategy w) k = (Inr entry, snd (build_entry tr (strategy w) k))"
    by (simp, metis prod.collapse)
  note r = patch_getter_build_ok [OF miss b, of M]
  from r show "fst (patch_getter M tr (CacheKey k) w) = Inr entry" by simp
  from a r have big: "M < length (AList.update (py_hash tr k) entry (caches w))" by simp
  from r big show "\<exists>ws. warnings (snd (patch_getter M tr (CacheKey k) w)) =
         warnings w @ ws @
         [TooManyTraced (length (caches (snd (patch_getter M tr (CacheKey k) w)))) M]"
    by simp
qed

theorem cache_only_grows_witness:
  "dict_keys (caches (demo_world [(3, 7, False)] True)) \<subseteq>
     dict_keys (caches (lookups 1 demo_tracer
        [CacheKey 3, CacheKey 0, NotCacheKey ''int'', CacheKey 4]
        (demo_world [(3, 7, False)] True))) \<and>
   map_of (caches (demo_world [(3, 7, False)] False)) (py_hash demo_tracer 4) = None \<and>
   1 < length (caches (snd (patch_getter 1 demo_tracer (CacheKey 4)
                              (demo_world [(3, 7, False)] False)))) \<and>
   fst (patch_getter 1 demo_tracer (CacheKey 4) (demo_world [(3, 7, False)] False))
     = Inr (4, True) \<and>
   (\<exists>ws. warnings (snd (patch_getter 1 demo_tracer (CacheKey 4)
                          (demo_world [(3, 7, False)] False))) =
      warnings (demo_world [(3, 7, False)] False) @ ws @ [TooManyTraced 2 1])"
proof -
  let ?w = "demo_world [(3, 7, False)] False"
  note h = demo_hash [of 4, simplified]
  have miss: "map_of (caches ?w) (py_hash demo_tracer 4) = None"
    by (simp add: h demo_world_def)
  have b: "build_entry demo_tracer (strategy ?w) 4
             = (Inr (4, True), (strategy ?w)\<lparr>need_compile := False\<rparr>)"
    by (simp add: demo_build)
  have len: "length (caches (snd (patch_getter 1 demo_tracer (CacheKey 4) ?w))) = 2"
    using patch_getter_build_ok [OF disjI1 [OF miss] b, of 1]
    by (simp add: h demo_world_def)
  from miss b len
    cache_only_grows [of "demo_world [(3, 7, False)] True" 1 demo_tracer
       "[CacheKey 3, CacheKey 0, NotCacheKey ''int'', CacheKey 4]"
       4 "(4, True)"]
    cache_only_grows [of ?w 1 demo_tracer "[]" 4 "(4, True)"]
  show ?thesis by simp
qed

section \<open>CompiledProgram: construction, recompilation, persistable variables\<close>

lemma remove_op_append:
  "remove_op i xs = Inr xs' \<Longrightarrow> remove_op i (xs @ ys) = Inr (xs' @ ys)"
  by (auto simp: remove_op_def split: if_splits)

lemma remove_ops_append:
  "remove_ops idx xs = Inr zs \<Longrightarrow> remove_ops idx (xs @ ys) = Inr (zs @ ys)"
proof (induction idx arbitrary: xs)
  case Nil
  then show ?case by simp
next
  case (Cons i idx)
  from Cons.prems obtain xs' where r: "remove_op i xs = Inr xs'" and rest: "remove_ops idx xs' = Inr zs"
    by (auto split: sum.splits)
  from remove_op_append [OF r, of ys] Cons.IH [OF rest] show ?case by simp
qed

lemma indices_where_snoc:
  "indices_where P (xs @ [x]) = indices_where P xs @ (if P x then [length xs] else [])"
  by (simp add: indices_where_def enumerate_append_eq)

lemma remove_op_last: "remove_op (length xs) (xs @ [x]) = Inr xs"
  by (simp add: remove_op_def)

lemma remove_ops_rev_indices:
  "remove_ops (rev (indices_where P xs)) xs = Inr (filter (\<lambda>x. \<not> P x) xs)"
proof (induction xs rule: rev_induct)
  case Nil
  then show ?case by (simp add: indices_where_def)
next
  case (snoc x xs)
  show ?case
  proof (cases "P x")
    case True
    then show ?thesis
      using snoc by (simp add: indices_where_snoc remove_op_last)
  next
    case False
    then show ?thesis
      using remove_ops_append [OF snoc, of "[x]"] by (simp add: indices_where_snoc)
  qed
qed

lemma prune_feed_ops_filter:
  "prune_feed_ops prog = Inr (prog\<lparr>ops := filter (\<lambda>op. type op \<noteq> ''feed'') (ops prog)\<rparr>)"
  by (simp add: prune_feed_ops_def remove_ops_rev_indices)

text \<open>
  Claim C7. The constructor adopts a Graph argument as its graph, unchanged, and keeps no
  program; for a Program argument the operators of type \<open>feed\<close> are removed from the
  global block, the others staying in their order, and the graph is built from the pruned
  program; an argument of any other type raises a TypeError whose message ends in the
  received type.
\<close>

theorem CompiledProgram_init_cases:
  "CompiledProgram_init api (GraphArg g) bs = Inr (fresh_CompiledProgram g None bs) \<and>
   graph (fresh_CompiledProgram g None bs :: ('a, 'g, 'p, 's, 'x, 'ic) CompiledProgram) = g \<and>
   CompiledProgram_init api (ProgramArg prog) bs =
     Inr (fresh_CompiledProgram
            (Graph_ctor api (prog\<lparr>ops := filter (\<lambda>op. type op \<noteq> ''feed'') (ops prog)\<rparr>))
            (Some (prog\<lparr>ops := filter (\<lambda>op. type op \<noteq> ''feed'') (ops prog)\<rparr>)) bs) \<and>
   CompiledProgram_init api (OtherArg tyname) bs =
     Inl (TypeError
       (''The type of program_to_graph parameter is wrong, expected Graph or Program, but received ''
          @ tyname))"
  by (simp add: CompiledProgram_init_def prune_feed_ops_filter fresh_CompiledProgram_def)

theorem CompiledProgram_init_cases_witness:
  "CompiledProgram_init demo_api
     (ProgramArg (demo_program
        [demo_operator ''feed'', demo_operator ''matmul'', demo_operator ''feed'',
         demo_operator ''relu''] [])) None =
   Inr (fresh_CompiledProgram []
          (Some (demo_program [demo_operator ''matmul'', demo_operator ''relu''] [])) None) \<and>
   CompiledProgram_init demo_api (OtherArg ''<class 'int'>'') None =
     Inl (TypeError
       ''The type of program_to_graph parameter is wrong, expected Graph or Program, but received <class 'int'>'')"
proof -
  have g: "Graph_ctor demo_api (demo_program os []) = []" for os
    by (simp add: demo_api_def demo_program_def)
  have f: "type (demo_operator ty) = ty" for ty
    by (simp add: demo_operator_def)
  have u: "(demo_program os vs)\<lparr>ops := os'\<rparr> = demo_program os' vs" for os os' vs
    by (simp add: demo_program_def)
  have o: "ops (demo_program os vs) = os" for os vs
    by (simp add: demo_program_def)
  from CompiledProgram_init_cases [of demo_api "[]" None
      "demo_program [demo_operator ''feed'', demo_operator ''matmul'', demo_operator ''feed'',
         demo_operator ''relu''] []" "''<class 'int'>''"]
  have "CompiledProgram_init demo_api
     (ProgramArg (demo_program
        [demo_operator ''feed'', demo_operator ''matmul'', demo_operator ''feed'',
         demo_operator ''relu''] [])) None =
     Inr (fresh_CompiledProgram
            (Graph_ctor demo_api ((demo_program
              [demo_operator ''feed'', demo_operator ''matmul'', demo_operator ''feed'',
               demo_operator ''relu''] [])\<lparr>ops := filter (\<lambda>op. type op \<noteq> ''feed'')
                 (ops (demo_program [demo_operator ''feed'', demo_operator ''matmul'',
                    demo_operator ''feed'', demo_operator ''relu''] []))\<rparr>))
            (Some ((demo_program
              [demo_operator ''feed'', demo_operator ''matmul'', demo_operator ''feed'',
               demo_operator ''relu''] [])\<lparr>ops := filter (\<lambda>op. type op \<noteq> ''feed'')
                 (ops (demo_program [demo_operator ''feed'', demo_operator ''matmul'',
                    demo_operator ''feed'', demo_operator ''relu''] []))\<rparr>)) None)"
    and "CompiledProgram_init demo_api (OtherArg ''<class 'int'>'') None =
     Inl (TypeError
       (''The type of program_to_graph parameter is wrong, expected Graph or Program, but received ''
          @ ''<class 'int'>''))"
    by blast+
  then show ?thesis by (simp add: g f u o)
qed

lemma sort_set_order:
  assumes "distinct ys" "set ys = set xs"
  shows "sort ys = set_then_sort xs"
proof -
  have "sorted (sort ys)" "distinct (sort ys)" "set (sort ys) = set xs"
    using assms by simp_all
  moreover have "sorted (sort (remdups xs))" "distinct (sort (remdups xs))"
    "set (sort (remdups xs)) = set xs"
    by simp_all
  ultimately show ?thesis
    unfolding set_then_sort_def by (metis sorted_distinct_set_unique)
qed

lemma set_then_sort_props:
  "sorted (set_then_sort xs)" "distinct (set_then_sort xs)" "set (set_then_sort xs) = set xs"
  by (simp_all add: set_then_sort_def)

lemma collect_persistable_vars_None: "collect_persistable_vars ns None = []"
  by (simp add: collect_persistable_vars_def)

lemma set_collect_persistable_vars:
  "set (collect_persistable_vars ns (Some p)) =
     {name n | n. n \<in> set ns \<and> is_var n \<and>
        (\<exists>v. var n = Some v \<and> persistable v \<and> var_type v \<noteq> RAW) \<and>
        should_broadcast_or_not_exists p (name n)}"
  by (auto simp: collect_persistable_vars_def split: option.splits)

lemma compile_data_parallel_body_vars:
  assumes "compile_data_parallel_body api places' self = (Inr ex, self')"
  shows "persistable_vars self' =
           set_then_sort (collect_persistable_vars (graph_nodes api (graph self)) (program self)) \<and>
         (\<exists>pl bs. core_CompiledProgram api pl (persistable_vars self') [] (scope self')
             (local_scopes self') bs (graph self') = Inr ex)"
  using assms
  by (fastforce simp: compile_data_parallel_body_def Let_def
      split: prod.splits option.splits sum.splits if_splits)

lemma compile_data_parallel_vars:
  assumes "compile_data_parallel api places' use_device scope' self = (Inr ex, self')"
  shows "persistable_vars self' =
           set_then_sort (collect_persistable_vars (graph_nodes api (graph self)) (program self)) \<and>
         (\<exists>pl bs. core_CompiledProgram api pl (persistable_vars self') [] (scope self')
             (local_scopes self') bs (graph self') = Inr ex)"
proof (cases "share_vars_from self")
  case None
  with assms have "scope' \<noteq> None"
    and b: "compile_data_parallel_body api places' (self\<lparr>local_scopes := []\<rparr>) = (Inr ex, self')"
    by (auto simp: compile_data_parallel_def split: if_splits)
  have g: "graph (self\<lparr>local_scopes := []\<rparr>) = graph self"
    "program (self\<lparr>local_scopes := []\<rparr>) = program self"
    by simp_all
  from compile_data_parallel_body_vars [OF b] show ?thesis unfolding g .
next
  case (Some shared)
  define s0 where "s0 =
     (if scope' \<noteq> None
      then self\<lparr>stderr := stderr self @
             [''share_vars_from is set, scope is ignored.'' @ [CHR 0x0A]]\<rparr>
      else self)"
  from Some assms obtain shex where
    b: "compile_data_parallel_body api places'
          (s0\<lparr>local_scopes := executor_local_scopes api shex\<rparr>) = (Inr ex, self')"
    unfolding compile_data_parallel_def s0_def
    by (cases shared) (simp_all add: Let_def)
  have g: "graph (s0\<lparr>local_scopes := executor_local_scopes api shex\<rparr>) = graph self"
    "program (s0\<lparr>local_scopes := executor_local_scopes api shex\<rparr>) = program self"
    by (simp_all add: s0_def)
  from compile_data_parallel_body_vars [OF b] show ?thesis unfolding g .
qed

text \<open>
  Claim C3, as the code has it. When \<^verbatim>\<open>_compile_data_parallel\<close> returns an executor, the
  list \<^verbatim>\<open>self._persistable_vars\<close> it handed to \<^verbatim>\<open>core.CompiledProgram\<close> is sorted in ascending
  order and has no duplicates. If the CompiledProgram was built from a Program, its
  elements are exactly the names of the graph's variable nodes that have a VarDesc, are
  persistable, are not of type RAW, and that \<^verbatim>\<open>_should_broadcast_or_not_exists\<close> accepts
  (the variable is absent from the program's global block or is not marked distributed).
  If it was built from a Graph (\<^verbatim>\<open>self._program\<close> is \<^verbatim>\<open>None\<close>), the list is empty.
\<close>

theorem persistable_vars_sorted_unique:
  assumes "compile_data_parallel api places' use_device scope' self = (Inr ex, self')"
  shows "sorted (persistable_vars self') \<and> distinct (persistable_vars self') \<and>
    (case program self of
       None \<Rightarrow> persistable_vars self' = []
     | Some p \<Rightarrow>
         set (persistable_vars self') =
           {name n | n. n \<in> set (graph_nodes api (graph self)) \<and> is_var n \<and>
              (\<exists>v. var n = Some v \<and> persistable v \<and> var_type v \<noteq> RAW) \<and>
              should_broadcast_or_not_exists p (name n)}) \<and>
    (\<exists>pl bs. core_CompiledProgram api pl (persistable_vars self') [] (scope self')
        (local_scopes self') bs (graph self') = Inr ex)"
proof -
  note v = compile_data_parallel_vars [OF assms]
  from v have pv: "persistable_vars self' =
      set_then_sort (collect_persistable_vars (graph_nodes api (graph self)) (program self))"
    by simp
  have c: "(case program self of
       None \<Rightarrow> persistable_vars self' = []
     | Some p \<Rightarrow>
         set (persistable_vars self') =
           {name n | n. n \<in> set (graph_nodes api (graph self)) \<and> is_var n \<and>
              (\<exists>v. var n = Some v \<and> persistable v \<and> var_type v \<noteq> RAW) \<and>
              should_broadcast_or_not_exists p (name n)})"
  proof (cases "program self")
    case None
    then show ?thesis
      by (simp add: pv collect_persistable_vars_None set_then_sort_def)
  next
    case (Some p)
    then show ?thesis
      by (simp only: pv option.case set_then_sort_props set_collect_persistable_vars)
  qed
  have s: "sorted (persistable_vars self')" "distinct (persistable_vars self')"
    by (simp_all add: pv set_then_sort_props)
  from s c v [THEN conjunct2] show ?thesis by (intro conjI)
qed

text \<open>
  Claim C4, as the code has it. On a CompiledProgram that is already compiled, with
  stored scope \<open>S\<close> and stored place \<open>P\<close>:
  \<^item> a call with a scope that is not \<^verbatim>\<open>None\<close> and differs from \<open>S\<close> raises the ValueError of
    line 338;
  \<^item> a call whose scope is \<^verbatim>\<open>None\<close> or \<open>S\<close> and whose place is \<^verbatim>\<open>None\<close> returns the same
    object unchanged, without compiling again;
  \<^item> when \<open>P\<close> is not \<^verbatim>\<open>None\<close>, a call whose scope is \<^verbatim>\<open>None\<close> or \<open>S\<close> and whose place is
    not \<^verbatim>\<open>None\<close> returns the same object unchanged if \<open>P\<close> \<^verbatim>\<open>_equals\<close> that place, and raises
    the ValueError of line 340 if it does not.

  A scope or place of \<^verbatim>\<open>None\<close> is never compared. Nothing is stated for a call with a place
  that is not \<^verbatim>\<open>None\<close> on an object whose stored place is \<^verbatim>\<open>None\<close>.
\<close>

theorem compile_again:
  assumes "compiled self"
  shows
   "(scope' \<noteq> None \<and> scope' \<noteq> scope self \<longrightarrow>
       compile api scope' place' self =
         (Some (ValueError ''Cannot compile program with different scope.''), self)) \<and>
    ((scope' = None \<or> scope' = scope self) \<and> place' = None \<longrightarrow>
       compile api scope' place' self = (None, self)) \<and>
    ((scope' = None \<or> scope' = scope self) \<and>
     place self = Some P \<and> place' = Some new_place \<and> place_equals api P new_place \<longrightarrow>
       compile api scope' place' self = (None, self)) \<and>
    ((scope' = None \<or> scope' = scope self) \<and>
     place self = Some P \<and> place' = Some new_place \<and> \<not> place_equals api P new_place \<longrightarrow>
       compile api scope' place' self =
         (Some (ValueError ''Cannot compile program with different place.''), self))"
  using assms by (auto simp: compile_def)

lemmas demo_defs = demo_node_def demo_api_def demo_variable_def demo_program_def
  fresh_CompiledProgram_def demo_graph_def demo_from_program_def demo_from_graph_def

lemmas cdp_defs = compile_data_parallel_def compile_data_parallel_body_def
  set_trainer_endpoints_def copy_allreduce_config_def check_dgc_def
  collect_persistable_vars_def should_broadcast_or_not_exists_def getattr_False_def
  set_then_sort_def

lemma demo_run_fst:
  "fst (compile_data_parallel demo_api [Some 0] CPU (Some 0) demo_from_program) = Inr [''a'', ''b'']"
  by (simp add: demo_defs cdp_defs)

lemma demo_run_vars:
  "persistable_vars (snd (compile_data_parallel demo_api [Some 0] CPU (Some 0) demo_from_program))
     = [''a'', ''b'']"
  by (simp add: demo_defs cdp_defs)

theorem persistable_vars_sorted_unique_witness:
  "fst (compile_data_parallel demo_api [Some 0] CPU (Some 0) demo_from_program) = Inr [''a'', ''b''] \<and>
   persistable_vars (snd (compile_data_parallel demo_api [Some 0] CPU (Some 0) demo_from_program))
     = [''a'', ''b''] \<and>
   sorted (persistable_vars (snd (compile_data_parallel demo_api [Some 0] CPU (Some 0) demo_from_program))) \<and>
   distinct (persistable_vars (snd (compile_data_parallel demo_api [Some 0] CPU (Some 0) demo_from_program)))"
proof -
  have ev: "compile_data_parallel demo_api [Some 0] CPU (Some 0) demo_from_program =
      (Inr [''a'', ''b''], snd (compile_data_parallel demo_api [Some 0] CPU (Some 0) demo_from_program))"
    using demo_run_fst by (metis prod.collapse)
  from persistable_vars_sorted_unique [OF ev] demo_run_fst demo_run_vars
  show ?thesis by blast
qed

text \<open>
  The claim as stated fails for a CompiledProgram built from a Graph: its graph has a
  persistable variable node \<open>w\<close> that is not RAW and that nothing marks as distributed,
  the compilation succeeds, and the list is empty.
\<close>

theorem persistable_vars_graph_input_counterexample:
  "is_var (demo_node ''w'' True (NOT_RAW 7)) \<and>
   var (demo_node ''w'' True (NOT_RAW 7)) = Some \<lparr>persistable = True, var_type = NOT_RAW 7\<rparr> \<and>
   name (demo_node ''w'' True (NOT_RAW 7)) = ''w'' \<and>
   graph_nodes demo_api (graph demo_from_graph) = [demo_node ''w'' True (NOT_RAW 7)] \<and>
   fst (compile demo_api (Some 1) (Some 0) demo_from_graph) = None \<and>
   executor (snd (compile demo_api (Some 1) (Some 0) demo_from_graph)) = Some [] \<and>
   persistable_vars (snd (compile demo_api (Some 1) (Some 0) demo_from_graph)) = []"
  by (simp add: demo_defs cdp_defs compile_def)

lemma demo_compiled_fields:
  "compiled demo_compiled" "scope demo_compiled = Some 1" "place demo_compiled = Some 0"
  by (simp_all add: demo_compiled_def demo_defs cdp_defs compile_def)

text \<open>
  The claim as stated fails for \<^verbatim>\<open>None\<close>: after \<^verbatim>\<open>_compile(scope=1, place=0)\<close>, a call with
  scope \<^verbatim>\<open>None\<close> (which differs from scope 1) and a call with place \<^verbatim>\<open>None\<close> both return the
  object and raise nothing.
\<close>

theorem compile_again_None_counterexample:
  "fst (compile demo_api (Some 1) (Some 0) demo_from_graph) = None \<and>
   compiled demo_compiled \<and> scope demo_compiled = Some 1 \<and> place demo_compiled = Some 0 \<and>
   compile demo_api None (Some 0) demo_compiled = (None, demo_compiled) \<and>
   compile demo_api (Some 1) None demo_compiled = (None, demo_compiled)"
proof -
  have "fst (compile demo_api (Some 1) (Some 0) demo_from_graph) = None"
    by (simp add: demo_defs cdp_defs compile_def)
  moreover have "compile demo_api None (Some 0) demo_compiled = (None, demo_compiled)"
    using demo_compiled_fields by (simp add: compile_def demo_api_def)
  moreover have "compile demo_api (Some 1) None demo_compiled = (None, demo_compiled)"
    using demo_compiled_fields by (simp add: compile_def)
  ultimately show ?thesis using demo_compiled_fields by simp
qed

theorem compile_again_witness:
  "compiled demo_compiled \<and> scope demo_compiled = Some 1 \<and> place demo_compiled = Some 0 \<and>
   compile demo_api (Some 2) (Some 0) demo_compiled =
     (Some (ValueError ''Cannot compile program with different scope.''), demo_compiled) \<and>
   compile demo_api (Some 1) None demo_compiled = (None, demo_compiled) \<and>
   compile demo_api (Some 1) (Some 0) demo_compiled = (None, demo_compiled) \<and>
   compile demo_api None (Some 5) demo_compiled =
     (Some (ValueError ''Cannot compile program with different place.''), demo_compiled)"
proof -
  have eq: "place_equals demo_api 0 0" "\<not> place_equals demo_api 0 5"
    by (simp_all add: demo_api_def)
  from demo_compiled_fields eq
    compile_again [OF demo_compiled_fields(1),
      where scope' = "Some 2" and api = demo_api and place' = "Some 0" and P = 0 and new_place = 0]
    compile_again [OF demo_compiled_fields(1),
      where scope' = "Some 1" and api = demo_api and place' = None and P = 0 and new_place = 0]
    compile_again [OF demo_compiled_fields(1),
      where scope' = "Some 1" and api = demo_api and place' = "Some 0" and P = 0 and new_place = 0]
    compile_again [OF demo_compiled_fields(1),
      where scope' = None and api = demo_api and place' = "Some 5" and P = 0 and new_place = 5]
  show ?thesis by simp
qed

section \<open>IpuCompiledProgram.compile: what a successful compilation leaves behind\<close>

lemma clear_need_check_feed_keeps:
  assumes "clear_need_check_feed fl vs = Inr vs'"
    and "map_of vs n = Some v" and "\<not> need_check_feed v"
  shows "\<exists>v'. map_of vs' n = Some v' \<and> \<not> need_check_feed v'"
  using assms
proof (induction fl arbitrary: vs v)
  case Nil
  then show ?case by auto
next
  case (Cons f fl)
  from Cons.prems(1) obtain fv where fv: "map_of vs f = Some fv"
    and rest: "clear_need_check_feed fl (AList.update f (fv\<lparr>need_check_feed := False\<rparr>) vs) = Inr vs'"
    by (auto split: option.splits)
  show ?case
  proof (cases "n = f")
    case True
    have "map_of (AList.update f (fv\<lparr>need_check_feed := False\<rparr>) vs) n
            = Some (fv\<lparr>need_check_feed := False\<rparr>)"
      using True by (simp add: update_conv')
    from Cons.IH [OF rest this] show ?thesis by simp
  next
    case False
    have "map_of (AList.update f (fv\<lparr>need_check_feed := False\<rparr>) vs) n = Some v"
      using False Cons.prems(2) by (simp add: update_conv')
    from Cons.IH [OF rest this Cons.prems(3)] show ?thesis .
  qed
qed

lemma clear_need_check_feed_all:
  assumes "clear_need_check_feed fl vs = Inr vs'"
  shows "\<forall>n\<in>set fl. \<exists>v. map_of vs' n = Some v \<and> \<not> need_check_feed v"
  using assms
proof (induction fl arbitrary: vs)
  case Nil
  then show ?case by simp
next
  case (Cons f fl)
  from Cons.prems obtain fv where fv: "map_of vs f = Some fv"
    and rest: "clear_need_check_feed fl (AList.update f (fv\<lparr>need_check_feed := False\<rparr>) vs) = Inr vs'"
    by (auto split: option.splits)
  have here: "map_of (AList.update f (fv\<lparr>need_check_feed := False\<rparr>) vs) f
            = Some (fv\<lparr>need_check_feed := False\<rparr>)"
    by (simp add: update_conv')
  from clear_need_check_feed_keeps [OF rest here] Cons.IH [OF rest]
  show ?case by simp
qed

lemma ipu_compile_success:
  assumes "ipu_compile api core_get feed_list fetch_list self = (Inr prog, self')"
  shows "\<not> need_compile (icp_ipu_strategy self') \<and>
         (\<exists>vs0. clear_need_check_feed feed_list vs0 = Inr (vars prog))"
proof -
  from assms obtain p1 where p1: "strip_feed_fetch (icp_program self) = Inr p1"
    by (auto simp: ipu_compile_def Let_def split: sum.splits)
  from assms p1 obtain tr where tr: "get_option core_get ''is_training'' (icp_ipu_strategy self) = Inr tr"
    by (auto simp: ipu_compile_def Let_def split: sum.splits)
  from assms p1 tr obtain g where g: "apply_passes api
       (ipu_pipeline (truthy tr) feed_list fetch_list (icp_custom_op_names self))
       (ipu_Graph api p1) = (None, g)"
    by (auto simp: ipu_compile_def Let_def split: sum.splits prod.splits option.splits)
  from assms p1 tr g obtain prog0 where prog0: "graph_to_program api g = Inr prog0"
    by (auto simp: ipu_compile_def Let_def split: sum.splits)
  from assms p1 tr g prog0 obtain src prog1 where sh: "share_lr_scheduler p1 prog0 = Inr (src, prog1)"
    by (auto simp: ipu_compile_def Let_def split: sum.splits)
  from assms p1 tr g prog0 sh obtain vs where vs: "clear_need_check_feed feed_list (vars prog1) = Inr vs"
    by (auto simp: ipu_compile_def Let_def split: sum.splits)
  from assms p1 tr g prog0 sh vs have r: "vars prog = vs" "\<not> need_compile (icp_ipu_strategy self')"
    by (auto simp: ipu_compile_def Let_def split: if_splits)
  from r vs show ?thesis by blast
qed

text \<open>
  Claim C9. Whenever \<^verbatim>\<open>IpuCompiledProgram.compile\<close> returns a program, the strategy's
  \<open>need_compile\<close> flag is false in the state it leaves behind.
\<close>

theorem ipu_compile_clears_need_compile:
  assumes "ipu_compile api core_get feed_list fetch_list self = (Inr prog, self')"
  shows "need_compile (icp_ipu_strategy self') = False"
  using ipu_compile_success [OF assms] by simp

text \<open>
  Claim C10. Whenever \<^verbatim>\<open>IpuCompiledProgram.compile(feed_list, fetch_list)\<close> returns a
  program, every name of \<open>feed_list\<close> is a variable of the global block of that program
  and that variable's \<open>need_check_feed\<close> flag is false.
\<close>

theorem ipu_compile_feeds_unchecked:
  assumes "ipu_compile api core_get feed_list fetch_list self = (Inr prog, self')"
  shows "\<forall>feed_name\<in>set feed_list.
           \<exists>v. map_of (vars prog) feed_name = Some v \<and> need_check_feed v = False"
proof -
  from ipu_compile_success [OF assms] obtain vs0 where
    "clear_need_check_feed feed_list vs0 = Inr (vars prog)" by blast
  from clear_need_check_feed_all [OF this] show ?thesis by simp
qed

lemmas ipu_defs = ipu_compile_def strip_feed_fetch_def indices_where_def remove_op_def
  remove_var_def dict_keys_def get_option_def store_get_option_def ipu_pipeline_def
  share_lr_scheduler_def demo_pass_api_def demo_icp_def demo_program_def demo_operator_def
  demo_variable_def new_strategy_def Program.extend_def IpuProgram.fields_def

lemma demo_ipu_run:
  "\<exists>prog s'. ipu_compile demo_pass_api store_get_option [''x''] [''y''] demo_icp = (Inr prog, s')"
  by (simp add: ipu_defs)

theorem ipu_compile_clears_need_compile_witness:
  "(\<exists>prog. fst (ipu_compile demo_pass_api store_get_option [''x''] [''y''] demo_icp) = Inr prog) \<and>
   need_compile (icp_ipu_strategy demo_icp) \<and>
   need_compile (icp_ipu_strategy
     (snd (ipu_compile demo_pass_api store_get_option [''x''] [''y''] demo_icp))) = False"
proof -
  from demo_ipu_run obtain prog s' where
    ev: "ipu_compile demo_pass_api store_get_option [''x''] [''y''] demo_icp = (Inr prog, s')"
    by blast
  have "need_compile (icp_ipu_strategy demo_icp)"
    by (simp add: demo_icp_def new_strategy_def)
  with ipu_compile_clears_need_compile [OF ev] ev show ?thesis by simp
qed

theorem ipu_compile_feeds_unchecked_witness:
  "\<exists>prog. fst (ipu_compile demo_pass_api store_get_option [''x''] [''y''] demo_icp) = Inr prog \<and>
     (\<exists>v. map_of (vars prog) ''x'' = Some v \<and> need_check_feed v = False)"
proof -
  from demo_ipu_run obtain prog s' where
    ev: "ipu_compile demo_pass_api store_get_option [''x''] [''y''] demo_icp = (Inr prog, s')"
    by blast
  from ipu_compile_feeds_unchecked [OF ev] ev show ?thesis by simp
qed

end
